theory Spec2Isabelle
  imports Complex_Main "HOL-Library.Word" "HOL-Library.AList"
begin

unbundle bit_operations_syntax

section \<open>JavaScript values and objects\<close>

text \<open>
  A JavaScript number is an IEEE double: a finite value (a rational), one of the two
  infinities, or NaN. Finite arithmetic is exact here; the rounding of each operation
  to the nearest double is not represented.
\<close>

datatype jsnum = Fin rat | PosInf | NegInf | NaN

text \<open>
  The values a row can hold. \<open>Iso ms\<close> stands for the string that
  \<^verbatim>\<open>new Date(ms).toISOString()\<close> returns for the instant \<open>ms\<close> (milliseconds since the
  epoch); the runtime maps instants to these strings one-to-one and \<^verbatim>\<open>new Date(s)\<close> reads
  the instant back. \<open>Null\<close> is \<^verbatim>\<open>null\<close>; \<^verbatim>\<open>undefined\<close> is the absence of a value.
\<close>

datatype jsval = Num jsnum | Str string | Iso int | Null

text \<open>An object is the list of its own properties, in the order they were created.\<close>

type_synonym obj = "(string \<times> jsval) list"

text \<open>
  Reading an own property. A key the object does not own reads as \<^verbatim>\<open>undefined\<close> or as an
  inherited member of \<^verbatim>\<open>Object.prototype\<close> (a function or an object): neither is a
  number, a string or \<^verbatim>\<open>null\<close>, and both are \<open>None\<close> here.
\<close>

definition obj_get :: "(string \<times> 'v) list \<Rightarrow> string \<Rightarrow> 'v option" where
  "obj_get r k = map_of r k"

text \<open>
  \<^verbatim>\<open>r[k] = v\<close> for a number or a string \<open>v\<close>: an existing property keeps its place, a new
  one goes to the end. Assigning a primitive to \<^verbatim>\<open>__proto__\<close> does nothing.
\<close>

definition obj_set :: "(string \<times> 'v) list \<Rightarrow> string \<Rightarrow> 'v \<Rightarrow> (string \<times> 'v) list" where
  "obj_set r k v = (if k = ''__proto__'' then r else AList.update k v r)"

text \<open>\<^verbatim>\<open>Object.prototype.hasOwnProperty.call(r, k)\<close>\<close>

definition hasOwn :: "(string \<times> 'v) list \<Rightarrow> string \<Rightarrow> bool" where
  "hasOwn r k \<longleftrightarrow> map_of r k \<noteq> None"

definition isDigit :: "char \<Rightarrow> bool" where
  "isDigit c \<longleftrightarrow> 48 \<le> (of_char c :: nat) \<and> (of_char c :: nat) \<le> 57"

definition decVal :: "string \<Rightarrow> int" where
  "decVal s = foldl (\<lambda>n c. 10 * n + ((of_char c :: int) - 48)) 0 s"

text \<open>
  A key that is an array index (the canonical decimal text of an integer below
  \<open>2^32 - 1\<close>). \<^verbatim>\<open>Object.keys\<close> lists these first, ascending, then the other keys in
  the order of their creation.
\<close>

definition isIndexKey :: "string \<Rightarrow> bool" where
  "isIndexKey s \<longleftrightarrow>
     s \<noteq> [] \<and> list_all isDigit s \<and> (s = ''0'' \<or> hd s \<noteq> CHR ''0'') \<and> decVal s < 2 ^ 32 - 1"

definition Object_keys :: "(string \<times> 'v) list \<Rightarrow> string list" where
  "Object_keys r =
     sort_key decVal (filter isIndexKey (map fst r)) @
     filter (\<lambda>k. \<not> isIndexKey k) (map fst r)"

text \<open>\<^verbatim>\<open>Set.prototype.add\<close> on a set kept in insertion order.\<close>

definition Set_add :: "'a list \<Rightarrow> 'a \<Rightarrow> 'a list" where
  "Set_add xs x = (if x \<in> set xs then xs else xs @ [x])"

text \<open>
  \<^verbatim>\<open>Array.prototype.sort\<close> with a comparator, given as the test \<open>gt a b\<close> for
  \<^verbatim>\<open>cmp(a, b) > 0\<close> (a NaN from the comparator counts as 0). The sort is stable; for a
  consistent comparator its result is that of this insertion sort.
\<close>

fun insertBy :: "('a \<Rightarrow> 'a \<Rightarrow> bool) \<Rightarrow> 'a \<Rightarrow> 'a list \<Rightarrow> 'a list" where
  "insertBy gt x [] = [x]"
| "insertBy gt x (y # ys) = (if gt x y then y # insertBy gt x ys else x # y # ys)"

definition Array_sort :: "('a \<Rightarrow> 'a \<Rightarrow> bool) \<Rightarrow> 'a list \<Rightarrow> 'a list" where
  "Array_sort gt xs = foldr (insertBy gt) xs []"

text \<open>Comparison and arithmetic of numbers, with the infinities and NaN.\<close>

fun jlt :: "jsnum \<Rightarrow> jsnum \<Rightarrow> bool" where
  "jlt NaN _ = False"
| "jlt _ NaN = False"
| "jlt (Fin a) (Fin b) = (a < b)"
| "jlt (Fin a) PosInf = True"
| "jlt (Fin a) NegInf = False"
| "jlt PosInf _ = False"
| "jlt NegInf NegInf = False"
| "jlt NegInf _ = True"

definition jle :: "jsnum \<Rightarrow> jsnum \<Rightarrow> bool" where
  "jle a b \<longleftrightarrow> a \<noteq> NaN \<and> b \<noteq> NaN \<and> \<not> jlt b a"

fun jadd :: "jsnum \<Rightarrow> jsnum \<Rightarrow> jsnum" where
  "jadd NaN _ = NaN"
| "jadd _ NaN = NaN"
| "jadd (Fin a) (Fin b) = Fin (a + b)"
| "jadd (Fin a) b = b"
| "jadd a (Fin b) = a"
| "jadd PosInf PosInf = PosInf"
| "jadd NegInf NegInf = NegInf"
| "jadd PosInf NegInf = NaN"
| "jadd NegInf PosInf = NaN"

fun jsign :: "jsnum \<Rightarrow> int" where
  "jsign (Fin a) = (if a < 0 then - 1 else if a = 0 then 0 else 1)"
| "jsign PosInf = 1"
| "jsign NegInf = - 1"
| "jsign NaN = 0"

fun jmul :: "jsnum \<Rightarrow> jsnum \<Rightarrow> jsnum" where
  "jmul NaN _ = NaN"
| "jmul _ NaN = NaN"
| "jmul (Fin a) (Fin b) = Fin (a * b)"
| "jmul a b =
     (if jsign a * jsign b = 0 then NaN else if jsign a * jsign b < 0 then NegInf else PosInf)"

text \<open>\<^verbatim>\<open>Math.min\<close> and \<^verbatim>\<open>Math.max\<close> of two numbers.\<close>

definition Math_min :: "jsnum \<Rightarrow> jsnum \<Rightarrow> jsnum" where
  "Math_min a b = (if a = NaN \<or> b = NaN then NaN else if jlt b a then b else a)"

definition Math_max :: "jsnum \<Rightarrow> jsnum \<Rightarrow> jsnum" where
  "Math_max a b = (if a = NaN \<or> b = NaN then NaN else if jlt a b then b else a)"

section \<open>ExternalBrush.tsx\<close>

text \<open>\<^verbatim>\<open>const clamp = (value, min, max) => Math.min(Math.max(value, min), max)\<close>\<close>

definition Brush_clamp :: "'a::linorder \<Rightarrow> 'a \<Rightarrow> 'a \<Rightarrow> 'a" where
  "Brush_clamp v lo hi = min (max v lo) hi"

text \<open>\<^verbatim>\<open>Math.round\<close>: the nearest integer, a tie going up.\<close>

definition Math_round :: "rat \<Rightarrow> int" where
  "Math_round x = \<lfloor>x + 1 / 2\<rfloor>"

datatype drag = DragLeft | DragRight | DragRange

text \<open>The props of the control that the drag arithmetic reads; \<open>total\<close> is \<^verbatim>\<open>data.length\<close>.\<close>

record brush_props =
  total :: int
  minSelectionPoints :: int
  maxSelectionPoints :: int

text \<open>The control's own state: the three \<^verbatim>\<open>useState\<close> cells and \<^verbatim>\<open>rangeDragOffsetRef\<close>.\<close>

record brush =
  dragging :: "drag option"
  localStart :: int
  localEnd :: int
  rangeDragOffset :: int

text \<open>
  What a pointer event reads from the page: \<open>trackW\<close> is \<^verbatim>\<open>el.clientWidth - 32\<close> and
  \<open>px\<close> is \<^verbatim>\<open>e.clientX - rect.left - 16\<close>.
\<close>

record pointer =
  trackW :: int
  px :: rat

datatype brush_event =
    MouseDownLeft
  | MouseDownRight
  | MouseDownBand pointer
  | MouseMove pointer
  | MouseUp

text \<open>
  \<^verbatim>\<open>indexFromPx\<close>, for a mounted track. \<^verbatim>\<open>px / w\<close> with \<^verbatim>\<open>w = 0\<close> is an infinity
  (clamped to 1 or 0) or, for \<^verbatim>\<open>px = 0\<close>, NaN, which the clamp and the rounding hand on:
  the result \<open>None\<close> is that NaN.
\<close>

definition indexFromPx :: "int \<Rightarrow> pointer \<Rightarrow> int option" where
  "indexFromPx tot p =
     (if tot \<le> 1 then Some 0
      else if trackW p = 0 then
        (if px p = 0 then None
         else Some (Math_round ((if 0 < px p then 1 else 0) * of_int (tot - 1))))
      else Some (Math_round (Brush_clamp (px p / of_int (trackW p)) 0 1 * of_int (tot - 1))))"

text \<open>
  \<^verbatim>\<open>onMouseMove\<close>. \<open>offsetNaN\<close> tells that \<^verbatim>\<open>rangeDragOffsetRef.current\<close> is NaN (the
  number kept in the state is then not read). \<open>None\<close> is the selection that a NaN target,
  or a NaN offset in a drag of the band, turns into NaN.
\<close>

definition onMouseMove :: "brush_props \<Rightarrow> brush \<Rightarrow> bool \<Rightarrow> pointer \<Rightarrow> brush option" where
  "onMouseMove P b offsetNaN p =
     (case dragging b of
        None \<Rightarrow> Some b
      | Some d \<Rightarrow>
         (case indexFromPx (total P) p of
            None \<Rightarrow> None
          | Some target \<Rightarrow>
             (let s = localStart b;
                  en = localEnd b;
                  maxW = max (minSelectionPoints P) (maxSelectionPoints P)
              in case d of
                   DragLeft \<Rightarrow>
                     (let minLeft = max 0 (en - maxW);
                          maxLeft = en - minSelectionPoints P
                      in Some (b\<lparr>localStart := Brush_clamp target minLeft maxLeft\<rparr>))
                 | DragRight \<Rightarrow>
                     (let minRight = s + minSelectionPoints P;
                          maxRight = min (total P - 1) (s + maxW)
                      in Some (b\<lparr>localEnd := Brush_clamp target minRight maxRight\<rparr>))
                 | DragRange \<Rightarrow>
                     (if offsetNaN then None
                      else let width = Brush_clamp (en - s) (minSelectionPoints P) maxW;
                               anchor = target - rangeDragOffset b;
                               s' = Brush_clamp anchor 0 (max 0 (total P - 1 - width))
                           in Some (b\<lparr>localStart := s', localEnd := s' + width\<rparr>)))))"

text \<open>
  One event of the control: the three \<^verbatim>\<open>onMouseDown\<close> handlers, the move and the release.
  The state goes with the mark that the ref holds NaN: a mouse-down on the band stores
  \<^verbatim>\<open>indexFromPx(px) - localStart\<close> in the ref, a number or NaN, and no other event writes
  the ref.
\<close>

fun brush_step :: "brush_props \<Rightarrow> brush \<times> bool \<Rightarrow> brush_event \<Rightarrow> (brush \<times> bool) option" where
  "brush_step P (b, offsetNaN) MouseDownLeft = Some (b\<lparr>dragging := Some DragLeft\<rparr>, offsetNaN)"
| "brush_step P (b, offsetNaN) MouseDownRight = Some (b\<lparr>dragging := Some DragRight\<rparr>, offsetNaN)"
| "brush_step P (b, offsetNaN) (MouseDownBand p) =
     (case indexFromPx (total P) p of
        None \<Rightarrow> Some (b\<lparr>dragging := Some DragRange\<rparr>, True)
      | Some i \<Rightarrow>
          Some (b\<lparr>dragging := Some DragRange, rangeDragOffset := i - localStart b\<rparr>, False))"
| "brush_step P (b, offsetNaN) (MouseMove p) =
     (case onMouseMove P b offsetNaN p of None \<Rightarrow> None | Some b' \<Rightarrow> Some (b', offsetNaN))"
| "brush_step P (b, offsetNaN) MouseUp = Some (b\<lparr>dragging := None\<rparr>, offsetNaN)"

fun brush_events ::
  "brush_props \<Rightarrow> brush \<times> bool \<Rightarrow> brush_event list \<Rightarrow> (brush \<times> bool) option" where
  "brush_events P st [] = Some st"
| "brush_events P st (e # es) =
     (case brush_step P st e of None \<Rightarrow> None | Some st' \<Rightarrow> brush_events P st' es)"

text \<open>The events run from a state whose ref holds the number \<open>rangeDragOffset b\<close>.\<close>

definition brush_run :: "brush_props \<Rightarrow> brush \<Rightarrow> brush_event list \<Rightarrow> brush option" where
  "brush_run P b es = map_option fst (brush_events P (b, False) es)"

text \<open>The state after mounting: \<^verbatim>\<open>useState(startIndex)\<close>, \<^verbatim>\<open>useState(endIndex)\<close>.\<close>

definition ExternalBrush :: "int \<Rightarrow> int \<Rightarrow> brush" where
  "ExternalBrush startIndex endIndex =
     \<lparr>dragging = None, localStart = startIndex, localEnd = endIndex, rangeDragOffset = 0\<rparr>"

datatype js_error = TypeError | RangeError

text \<open>
  \<^verbatim>\<open>labelForIndex\<close>. \<^verbatim>\<open>data[idx]\<close> outside the array is \<^verbatim>\<open>undefined\<close>, and reading
  \<^verbatim>\<open>[xKey]\<close> of it throws. The text of the label (\<^verbatim>\<open>toDate\<close>, the locale's date
  format, \<^verbatim>\<open>String(v)\<close>) is the parameter \<open>fmt\<close>; none of it throws.
\<close>

definition labelForIndex ::
  "(jsval option \<Rightarrow> string) \<Rightarrow> obj list \<Rightarrow> string \<Rightarrow> int \<Rightarrow> js_error + string" where
  "labelForIndex fmt data xKey idx =
     (if 0 \<le> idx \<and> idx < int (length data)
      then Inr (fmt (obj_get (data ! nat idx) xKey))
      else Inl TypeError)"

text \<open>Rendering builds the two handle labels, the left one first.\<close>

definition renderLabels ::
  "(jsval option \<Rightarrow> string) \<Rightarrow> obj list \<Rightarrow> string \<Rightarrow> brush \<Rightarrow> js_error + string \<times> string" where
  "renderLabels fmt data xKey b =
     (case labelForIndex fmt data xKey (localStart b) of
        Inl e \<Rightarrow> Inl e
      | Inr l \<Rightarrow>
         (case labelForIndex fmt data xKey (localEnd b) of
            Inl e \<Rightarrow> Inl e
          | Inr r \<Rightarrow> Inr (l, r)))"

text \<open>The selection as the drag arithmetic keeps it: inside the data, width \<open>right - left\<close>.\<close>

definition selectionOk :: "brush_props \<Rightarrow> brush \<Rightarrow> bool" where
  "selectionOk P b \<longleftrightarrow>
     0 \<le> localStart b \<and> localEnd b \<le> total P - 1 \<and>
     minSelectionPoints P \<le> localEnd b - localStart b \<and>
     localEnd b - localStart b \<le> max (minSelectionPoints P) (maxSelectionPoints P)"

text \<open>The selection as the specification words it: width counted as \<open>right - left + 1\<close>.\<close>

definition selectionAsSpecified :: "brush_props \<Rightarrow> brush \<Rightarrow> bool" where
  "selectionAsSpecified P b \<longleftrightarrow>
     localStart b \<le> localEnd b \<and>
     minSelectionPoints P \<le> localEnd b - localStart b + 1 \<and>
     localEnd b - localStart b + 1 \<le> maxSelectionPoints P"

text \<open>A pointer sample taken on a track of nonzero width.\<close>

fun onTrack :: "brush_event \<Rightarrow> bool" where
  "onTrack (MouseDownBand p) = (trackW p \<noteq> 0)"
| "onTrack (MouseMove p) = (trackW p \<noteq> 0)"
| "onTrack _ = True"

text \<open>The chart's own props: \<^verbatim>\<open>minSelectionPoints={6} maxSelectionPoints={24 * 15}\<close>.\<close>

definition chartBrushProps :: "int \<Rightarrow> brush_props" where
  "chartBrushProps n = \<lparr>total = n, minSelectionPoints = 6, maxSelectionPoints = 24 * 15\<rparr>"

definition hourlyData :: "nat \<Rightarrow> obj list" where
  "hourlyData n = map (\<lambda>i. [(''x'', Iso (int i * 3600000))]) [0..<n]"

section \<open>MultiDeviceLatencyChart.tsx: strings\<close>

text \<open>
  A string is the list of its UTF-16 code units, each below 256 and held by one \<open>char\<close>.
  The regular expressions of the source are written out as the functions that decide them.
\<close>

definition TAB :: char where "TAB = CHR 0x09"
definition LF :: char where "LF = CHR 0x0A"
definition CR :: char where "CR = CHR 0x0D"

text \<open>
  The class \<^verbatim>\<open>\s\<close>, which is also what \<^verbatim>\<open>trim\<close> removes: the code units of white
  space and line ends that a \<open>char\<close> can hold, the no-break space 160 among them.
\<close>

definition isSpace :: "char \<Rightarrow> bool" where
  "isSpace c \<longleftrightarrow> (of_char c :: nat) \<in> {9, 10, 11, 12, 13, 32, 160}"

text \<open>The class \<^verbatim>\<open>\w\<close>.\<close>

definition isWordChar :: "char \<Rightarrow> bool" where
  "isWordChar c \<longleftrightarrow>
     (let n = (of_char c :: nat)
      in (48 \<le> n \<and> n \<le> 57) \<or> (65 \<le> n \<and> n \<le> 90) \<or> (97 \<le> n \<and> n \<le> 122) \<or> n = 95)"

definition lowerChar :: "char \<Rightarrow> char" where
  "lowerChar c =
     (let n = (of_char c :: nat) in if 65 \<le> n \<and> n \<le> 90 then char_of (n + 32) else c)"

definition toLowerCase :: "string \<Rightarrow> string" where
  "toLowerCase s = map lowerChar s"

definition trim :: "string \<Rightarrow> string" where
  "trim s = rev (dropWhile isSpace (rev (dropWhile isSpace s)))"

definition startsWith :: "string \<Rightarrow> string \<Rightarrow> bool" where
  "startsWith s p \<longleftrightarrow> take (length p) s = p"

text \<open>\<open>strIncludes s p\<close>: the text \<open>p\<close> occurs in \<open>s\<close>.\<close>

fun strIncludes :: "string \<Rightarrow> string \<Rightarrow> bool" where
  "strIncludes [] p = (p = [])"
| "strIncludes (c # cs) p = (startsWith (c # cs) p \<or> strIncludes cs p)"

text \<open>Putting a character in front of the first piece of a split.\<close>

fun consHead :: "char \<Rightarrow> string list \<Rightarrow> string list" where
  "consHead c [] = [[c]]"
| "consHead c (p # ps) = (c # p) # ps"

text \<open>\<^verbatim>\<open>text.split(/\r?\n/)\<close>: a line ends at a line feed, and a carriage return right before it goes with it.\<close>

fun splitLines :: "string \<Rightarrow> string list" where
  "splitLines [] = [[]]"
| "splitLines [c] = (if c = LF then [[], []] else [[c]])"
| "splitLines (c # d # cs) =
     (if c = LF then [] # splitLines (d # cs)
      else if c = CR \<and> d = LF then [] # splitLines cs
      else consHead c (splitLines (d # cs)))"

text \<open>\<^verbatim>\<open>text.split(/\r?\n/).filter(Boolean)\<close>\<close>

definition textLines :: "string \<Rightarrow> string list" where
  "textLines text = filter (\<lambda>l. l \<noteq> []) (splitLines text)"

text \<open>\<^verbatim>\<open>line.split(/\t+/)\<close>: a run of tabs is one separator.\<close>

function splitTabs :: "string \<Rightarrow> string list" where
  "splitTabs [] = [[]]"
| "splitTabs (c # cs) =
     (if c = TAB then [] # splitTabs (dropWhile (\<lambda>d. d = TAB) cs)
      else consHead c (splitTabs cs))"
  by pat_completeness auto
termination
  by (relation "measure length") (auto simp: less_Suc_eq_le length_dropWhile_le)

text \<open>
  \<^verbatim>\<open>line.split(/,(?=(?:[^"]*"[^"]*")*[^"]*$)/)\<close>: a comma separates when an even number
  of double quotes follows it.
\<close>

fun splitCsvLine :: "string \<Rightarrow> string list" where
  "splitCsvLine [] = [[]]"
| "splitCsvLine (c # cs) =
     (if c = CHR '','' \<and> even (count_list cs (CHR 0x22)) then [] # splitCsvLine cs
      else consHead c (splitCsvLine cs))"

fun splitCommas :: "string \<Rightarrow> string list" where
  "splitCommas [] = [[]]"
| "splitCommas (c # cs) =
     (if c = CHR '','' then [] # splitCommas cs else consHead c (splitCommas cs))"

text \<open>
  \<^verbatim>\<open>lines[0].split(/\s*,\s*/)\<close>: the commas separate, and the white space next to a comma
  belongs to the separator; the first field keeps its leading and the last its trailing
  white space.
\<close>

fun trimAtCommas :: "bool \<Rightarrow> string list \<Rightarrow> string list" where
  "trimAtCommas first [] = []"
| "trimAtCommas first [f] = [if first then f else dropWhile isSpace f]"
| "trimAtCommas first (f # g # fs) =
     rev (dropWhile isSpace (rev (if first then f else dropWhile isSpace f)))
       # trimAtCommas False (g # fs)"

definition splitHeader :: "string \<Rightarrow> string list" where
  "splitHeader line = trimAtCommas True (splitCommas line)"

text \<open>\<^verbatim>\<open>s.replace(/^"|"$/g, "")\<close>: a double quote at the start and one at the end are removed.\<close>

definition stripQuotes :: "string \<Rightarrow> string" where
  "stripQuotes s =
     (let s1 = (if s \<noteq> [] \<and> hd s = CHR 0x22 then tl s else s)
      in if s1 \<noteq> [] \<and> last s1 = CHR 0x22 then butlast s1 else s1)"

text \<open>\<^verbatim>\<open>timeStr.replace(" ", "T")\<close>: the first space only.\<close>

fun replaceSpaceT :: "string \<Rightarrow> string" where
  "replaceSpaceT [] = []"
| "replaceSpaceT (c # cs) = (if c = CHR '' '' then CHR ''T'' # cs else c # replaceSpaceT cs)"

text \<open>\<^verbatim>\<open>header.indexOf(name)\<close>; \<open>None\<close> is \<open>-1\<close>.\<close>

fun indexOf :: "string list \<Rightarrow> string \<Rightarrow> nat option" where
  "indexOf [] k = None"
| "indexOf (h # hs) k = (if h = k then Some 0 else map_option Suc (indexOf hs k))"

text \<open>The decimal text of an array index, as in \<^verbatim>\<open>id + ":" + i\<close>.\<close>

fun showNat :: "nat \<Rightarrow> string" where
  "showNat n = (if n < 10 then [char_of (48 + n)] else showNat (n div 10) @ [char_of (48 + n mod 10)])"

section \<open>MultiDeviceLatencyChart.tsx: bands\<close>

datatype BandCode = B24 | B5 | B5m

fun bandText :: "BandCode \<Rightarrow> string" where
  "bandText B24 = ''24''"
| "bandText B5 = ''5''"
| "bandText B5m = ''5m''"

definition BAND_META_PREFIX :: string where
  "BAND_META_PREFIX = ''__band:''"

text \<open>\<^verbatim>\<open>normalizeBand\<close>; the argument \<open>None\<close> is \<^verbatim>\<open>undefined\<close>.\<close>

definition normalizeBand :: "string option \<Rightarrow> BandCode option" where
  "normalizeBand raw =
     (case raw of
        None \<Rightarrow> None
      | Some r \<Rightarrow>
         (if r = [] then None
          else let s = toLowerCase (trim r)
               in if s = [] then None
                  else if strIncludes s ''2.4'' \<or> strIncludes s ''2g'' \<or> strIncludes s ''2 ghz''
                          \<or> strIncludes s ''2.4ghz'' then Some B24
                  else if strIncludes s ''5ghz mesh'' \<or> strIncludes s ''5 ghz mesh'' \<or> strIncludes s ''mesh5''
                          \<or> strIncludes s ''backhaul'' \<or> strIncludes s ''mesh'' then Some B5m
                  else if strIncludes s ''5'' \<or> strIncludes s ''5ghz'' \<or> strIncludes s ''5 ghz'' then Some B5
                  else None))"

section \<open>MultiDeviceLatencyChart.tsx: the record parser\<close>

text \<open>
  A row is an object: \<open>x\<close> holds the timestamp, a device id holds that device's latency,
  \<open>__band:<id>\<close> holds the band captured for it. The registry of names is an object
  too; a name can be \<^verbatim>\<open>undefined\<close> (\<open>None\<close>).
\<close>

type_synonym row = "(string \<times> jsval) list"
type_synonym names = "(string \<times> string option) list"

text \<open>
  \<open>tmpByTime\<close>, a \<^verbatim>\<open>Map\<close> from the ISO string of an instant to its row, in insertion
  order; the key is the instant itself.
\<close>

type_synonym byTime = "(int \<times> row) list"

text \<open>
  The body of both parsing loops after the fields of a line are known. \<open>dateParse\<close> is the
  runtime's \<^verbatim>\<open>new Date(string)\<close> (\<open>None\<close> is an invalid date, on which
  \<^verbatim>\<open>toISOString()\<close> throws a RangeError) and \<open>toNumber\<close> its \<^verbatim>\<open>Number(string)\<close>.
\<close>

definition addRecord ::
  "(string \<Rightarrow> int option) \<Rightarrow> (string \<Rightarrow> jsnum) \<Rightarrow>
   string \<Rightarrow> string \<Rightarrow> string option \<Rightarrow> string \<Rightarrow> BandCode option \<Rightarrow>
   byTime \<times> names \<Rightarrow> js_error + byTime \<times> names" where
  "addRecord dateParse toNumber timeStr deviceId deviceName latencyStr band st =
     (case dateParse (replaceSpaceT timeStr @ ''Z'') of
        None \<Rightarrow> Inl RangeError
      | Some dateIso \<Rightarrow>
         (let latency = toNumber latencyStr;
              nms = obj_set (snd st) deviceId deviceName;
              tmp0 = (if map_of (fst st) dateIso = None
                      then fst st @ [(dateIso, [(''x'', Iso dateIso)])] else fst st);
              tmp1 = AList.map_entry dateIso (\<lambda>r. obj_set r deviceId (Num latency)) tmp0;
              tmp2 = (case band of
                        None \<Rightarrow> tmp1
                      | Some b \<Rightarrow>
                          AList.map_entry dateIso
                            (\<lambda>r. obj_set r (BAND_META_PREFIX @ deviceId) (Str (bandText b))) tmp1)
          in Inr (tmp2, nms)))"

text \<open>\<^verbatim>\<open>+new Date(a.x)\<close>: the instant a row is sorted by; \<open>None\<close> is NaN.\<close>

definition timeClip :: "jsnum \<Rightarrow> int option" where
  "timeClip n =
     (case n of
        Fin q \<Rightarrow> (if \<bar>q\<bar> \<le> 8640000000000000 then Some (if q < 0 then - \<lfloor>- q\<rfloor> else \<lfloor>q\<rfloor>) else None)
      | _ \<Rightarrow> None)"

definition rowTime :: "(string \<Rightarrow> int option) \<Rightarrow> row \<Rightarrow> int option" where
  "rowTime dateParse r =
     (case obj_get r ''x'' of
        Some (Iso ms) \<Rightarrow> Some ms
      | Some (Str s) \<Rightarrow> dateParse s
      | Some (Num n) \<Rightarrow> timeClip n
      | Some Null \<Rightarrow> Some 0
      | None \<Rightarrow> None)"

text \<open>The comparator \<^verbatim>\<open>(a, b) => +new Date(a.x) - +new Date(b.x)\<close> is positive.\<close>

definition laterThan :: "(string \<Rightarrow> int option) \<Rightarrow> row \<Rightarrow> row \<Rightarrow> bool" where
  "laterThan dateParse a b =
     (case (rowTime dateParse a, rowTime dateParse b) of
        (Some ta, Some tb) \<Rightarrow> tb < ta
      | _ \<Rightarrow> False)"

text \<open>\<^verbatim>\<open>Array.from(tmpByTime.values()).sort(...)\<close>\<close>

definition sortedRows :: "(string \<Rightarrow> int option) \<Rightarrow> byTime \<Rightarrow> row list" where
  "sortedRows dateParse tmp = Array_sort (laterThan dateParse) (map snd tmp)"

text \<open>Running a loop body over the lines; a throw ends the loop.\<close>

fun forEachLine ::
  "('l \<Rightarrow> 's \<Rightarrow> js_error + 's) \<Rightarrow> 'l list \<Rightarrow> 's \<Rightarrow> js_error + 's" where
  "forEachLine body [] st = Inr st"
| "forEachLine body (l # ls) st =
     (case body l st of Inl e \<Rightarrow> Inl e | Inr st' \<Rightarrow> forEachLine body ls st')"

text \<open>
  The fields of a tab-separated line, \<open>None\<close> for a line the loop skips
  (\<^verbatim>\<open>if (parts.length < 4) continue\<close>).
\<close>

definition tsvFields :: "string \<Rightarrow> (string \<times> string \<times> string \<times> string) option" where
  "tsvFields line =
     (let parts = splitTabs line
      in if length parts < 4 then None
         else Some (parts ! 0, parts ! 1, parts ! 2, parts ! 3))"

definition tsvLine ::
  "(string \<Rightarrow> int option) \<Rightarrow> (string \<Rightarrow> jsnum) \<Rightarrow> string \<Rightarrow>
   byTime \<times> names \<Rightarrow> js_error + byTime \<times> names" where
  "tsvLine dateParse toNumber line st =
     (case tsvFields line of
        None \<Rightarrow> Inr st
      | Some (timeStr, deviceId, deviceName, latencyStr) \<Rightarrow>
          addRecord dateParse toNumber timeStr deviceId (Some deviceName) latencyStr
            (normalizeBand (Some deviceName)) st)"

definition parseTSV ::
  "(string \<Rightarrow> int option) \<Rightarrow> (string \<Rightarrow> jsnum) \<Rightarrow> string \<Rightarrow> js_error + row list \<times> names" where
  "parseTSV dateParse toNumber text =
     (case forEachLine (tsvLine dateParse toNumber) (textLines text) ([], []) of
        Inl e \<Rightarrow> Inl e
      | Inr (tmp, nms) \<Rightarrow> Inr (sortedRows dateParse tmp, nms))"

text \<open>The column indexes read from the header line.\<close>

record csv_header =
  idxTimestamp :: "nat option"
  idxDeviceId :: "nat option"
  idxDeviceName :: "nat option"
  idxLatency :: "nat option"
  idxBand :: "nat option"

definition bandCandidates :: "string list" where
  "bandCandidates =
     [''band'', ''wifi_band'', ''connection_band'', ''connected_band'', ''uplink'', ''radio'',
      ''frequency'', ''freq'']"

text \<open>The loop over the candidates: the first one that the lowered header has.\<close>

fun firstCandidate :: "string list \<Rightarrow> string list \<Rightarrow> nat option" where
  "firstCandidate lower [] = None"
| "firstCandidate lower (c # cs) =
     (case indexOf lower c of Some i \<Rightarrow> Some i | None \<Rightarrow> firstCandidate lower cs)"

definition csvHeader :: "string \<Rightarrow> csv_header" where
  "csvHeader line =
     (let header = map stripQuotes (splitHeader line)
      in \<lparr>idxTimestamp = indexOf header ''timestamp'',
          idxDeviceId = indexOf header ''device_id'',
          idxDeviceName = indexOf header ''device_name'',
          idxLatency = indexOf header ''latency_ms'',
          idxBand = firstCandidate (map toLowerCase header) bandCandidates\<rparr>)"

text \<open>\<^verbatim>\<open>parts[idx]?.replace(/^"|"$/g, "")\<close>; there is no part at \<open>-1\<close> or past the end.\<close>

definition csvPart :: "string list \<Rightarrow> nat option \<Rightarrow> string option" where
  "csvPart parts idx =
     (case idx of
        None \<Rightarrow> None
      | Some i \<Rightarrow> (if i < length parts then Some (stripQuotes (parts ! i)) else None))"

text \<open>A string that is \<^verbatim>\<open>undefined\<close> or empty is falsy.\<close>

definition falsyStr :: "string option \<Rightarrow> bool" where
  "falsyStr s \<longleftrightarrow> s = None \<or> s = Some []"

text \<open>
  The fields of a comma-separated data line: time, device id, device name, latency and
  band text; \<open>None\<close> for a line the loop skips.
\<close>

definition csvFields ::
  "csv_header \<Rightarrow> string \<Rightarrow> (string \<times> string \<times> string option \<times> string \<times> string option) option" where
  "csvFields h line =
     (if trim line = [] then None
      else let parts = splitCsvLine line
           in if length parts < 4 then None
              else let timeStr = csvPart parts (idxTimestamp h);
                       deviceId = csvPart parts (idxDeviceId h);
                       deviceName = csvPart parts (idxDeviceName h);
                       latencyStr = csvPart parts (idxLatency h);
                       bandStr = csvPart parts (idxBand h)
                   in if falsyStr timeStr \<or> falsyStr deviceId \<or> falsyStr latencyStr then None
                      else Some (the timeStr, the deviceId, deviceName, the latencyStr, bandStr))"

text \<open>\<^verbatim>\<open>normalizeBand(bandStr) || normalizeBand(deviceName)\<close>\<close>

definition csvBand :: "string option \<Rightarrow> string option \<Rightarrow> BandCode option" where
  "csvBand bandStr deviceName =
     (case normalizeBand bandStr of Some b \<Rightarrow> Some b | None \<Rightarrow> normalizeBand deviceName)"

definition csvLine ::
  "(string \<Rightarrow> int option) \<Rightarrow> (string \<Rightarrow> jsnum) \<Rightarrow> csv_header \<Rightarrow> string \<Rightarrow>
   byTime \<times> names \<Rightarrow> js_error + byTime \<times> names" where
  "csvLine dateParse toNumber h line st =
     (case csvFields h line of
        None \<Rightarrow> Inr st
      | Some (timeStr, deviceId, deviceName, latencyStr, bandStr) \<Rightarrow>
          addRecord dateParse toNumber timeStr deviceId deviceName latencyStr
            (csvBand bandStr deviceName) st)"

definition parseCSV ::
  "(string \<Rightarrow> int option) \<Rightarrow> (string \<Rightarrow> jsnum) \<Rightarrow> string \<Rightarrow> js_error + row list \<times> names" where
  "parseCSV dateParse toNumber text =
     (case textLines text of
        [] \<Rightarrow> Inr ([], [])
      | header # lines \<Rightarrow>
         (case forEachLine (csvLine dateParse toNumber (csvHeader header)) lines ([], []) of
            Inl e \<Rightarrow> Inl e
          | Inr (tmp, nms) \<Rightarrow> Inr (sortedRows dateParse tmp, nms)))"

section \<open>Valid input of the parser\<close>

text \<open>
  A record the loop body accepts: its timestamp is a date for the runtime, and its device
  id is not \<open>x\<close>, the key under which a row keeps its timestamp.
\<close>

definition recordOk :: "(string \<Rightarrow> int option) \<Rightarrow> string \<Rightarrow> string \<Rightarrow> bool" where
  "recordOk dateParse timeStr deviceId \<longleftrightarrow>
     dateParse (replaceSpaceT timeStr @ ''Z'') \<noteq> None \<and> deviceId \<noteq> ''x''"

text \<open>
  Valid tab-separated input as the specification words it: every record the loop accepts
  has a timestamp that is a date.
\<close>

definition tsvAsSpecified :: "(string \<Rightarrow> int option) \<Rightarrow> string \<Rightarrow> bool" where
  "tsvAsSpecified dateParse text =
     list_all (\<lambda>line. case tsvFields line of
                        None \<Rightarrow> True
                      | Some (timeStr, deviceId, deviceName, latencyStr) \<Rightarrow>
                          dateParse (replaceSpaceT timeStr @ ''Z'') \<noteq> None)
       (textLines text)"

definition tsvLineOk :: "(string \<Rightarrow> int option) \<Rightarrow> string \<Rightarrow> bool" where
  "tsvLineOk dateParse line =
     (case tsvFields line of
        None \<Rightarrow> True
      | Some (timeStr, deviceId, deviceName, latencyStr) \<Rightarrow> recordOk dateParse timeStr deviceId)"

definition tsvValid :: "(string \<Rightarrow> int option) \<Rightarrow> string \<Rightarrow> bool" where
  "tsvValid dateParse text = list_all (tsvLineOk dateParse) (textLines text)"

definition csvLineOk :: "(string \<Rightarrow> int option) \<Rightarrow> csv_header \<Rightarrow> string \<Rightarrow> bool" where
  "csvLineOk dateParse h line =
     (case csvFields h line of
        None \<Rightarrow> True
      | Some (timeStr, deviceId, deviceName, latencyStr, bandStr) \<Rightarrow>
          recordOk dateParse timeStr deviceId)"

definition csvValid :: "(string \<Rightarrow> int option) \<Rightarrow> string \<Rightarrow> bool" where
  "csvValid dateParse text =
     (case textLines text of
        [] \<Rightarrow> True
      | header # lines \<Rightarrow> list_all (csvLineOk dateParse (csvHeader header)) lines)"

text \<open>The rows all have an instant, and the instants increase strictly along the list.\<close>

definition strictlyIncreasing :: "(string \<Rightarrow> int option) \<Rightarrow> row list \<Rightarrow> bool" where
  "strictlyIncreasing dateParse rows \<longleftrightarrow>
     list_all (\<lambda>r. rowTime dateParse r \<noteq> None) rows \<and>
     sorted_wrt (\<lambda>a b. laterThan dateParse b a) rows"

text \<open>The rows of \<open>tmpByTime\<close> while no device is called \<open>x\<close>: each row holds its own key.\<close>

definition byTimeOk :: "byTime \<Rightarrow> bool" where
  "byTimeOk tmp \<longleftrightarrow>
     distinct (map fst tmp) \<and> list_all (\<lambda>(k, r). obj_get r ''x'' = Some (Iso k)) tmp"

section \<open>MultiDeviceLatencyChart.tsx: the sparse-device synthesizer\<close>

text \<open>\<^verbatim>\<open>const clamp = (v, min, max) => Math.max(min, Math.min(max, v))\<close>\<close>

definition Chart_clamp :: "jsnum \<Rightarrow> jsnum \<Rightarrow> jsnum \<Rightarrow> jsnum" where
  "Chart_clamp v lo hi = Math_max lo (Math_min hi v)"

text \<open>\<^verbatim>\<open>const isNumeric = (v) => typeof v === "number" && !Number.isNaN(v)\<close>\<close>

definition isNumeric :: "jsval option \<Rightarrow> bool" where
  "isNumeric v = (case v of Some (Num n) \<Rightarrow> n \<noteq> NaN | _ \<Rightarrow> False)"

text \<open>
  \<^verbatim>\<open>hashStringToUnit\<close>: FNV-1a on 32 bits (\<^verbatim>\<open>h ^= code; h = Math.imul(h, 16777619)\<close>),
  read unsigned and divided by \<^verbatim>\<open>0xffffffff\<close>.
\<close>

definition hashStringToUnit :: "string \<Rightarrow> rat" where
  "hashStringToUnit s =
     of_int (uint (fold (\<lambda>c h. (h XOR of_char c) * 16777619) s (2166136261 :: 32 word)))
       / 4294967295"

text \<open>\<^verbatim>\<open>Math.PI\<close>, the double next to \<open>\<pi>\<close>.\<close>

definition Math_PI :: rat where
  "Math_PI = 884279719003555 / 281474976710656"

text \<open>
  \<^verbatim>\<open>Number(val.toFixed(2))\<close>: two decimals, a tie going away from zero; an infinity and NaN
  print and read back as themselves.
\<close>

fun toFixed2 :: "jsnum \<Rightarrow> jsnum" where
  "toFixed2 (Fin x) = Fin ((if x < 0 then - 1 else 1) * of_int \<lfloor>\<bar>x\<bar> * 100 + 1 / 2\<rfloor> / 100)"
| "toFixed2 n = n"

text \<open>
  The set \<open>ids\<close> and \<open>deviceIdsAll\<close>: the keys of the registry other than \<open>gap\<close>, then the
  keys of each row other than \<open>x\<close> and \<open>gap\<close>, in the order they are first met.
\<close>

definition deviceIdsAll :: "row list \<Rightarrow> names \<Rightarrow> string list" where
  "deviceIdsAll rows nms =
     foldl (\<lambda>ids r. foldl Set_add ids (filter (\<lambda>k. k \<noteq> ''x'' \<and> k \<noteq> ''gap'') (Object_keys r)))
       (foldl Set_add [] (filter (\<lambda>k. k \<noteq> ''gap'') (Object_keys nms)))
       rows"

definition coverageCount :: "row list \<Rightarrow> string \<Rightarrow> nat" where
  "coverageCount rows dev = length (filter (\<lambda>r. isNumeric (obj_get r dev)) rows)"

text \<open>
  \<open>baseIds\<close>: the ids sorted by falling coverage (the comparator
  \<^verbatim>\<open>coverageCount[b] - coverageCount[a]\<close>), the first four of them, those with coverage.
\<close>

definition baseIds :: "row list \<Rightarrow> string list \<Rightarrow> string list" where
  "baseIds rows ids =
     filter (\<lambda>dev. 0 < coverageCount rows dev)
       (take 4 (Array_sort (\<lambda>a b. coverageCount rows a < coverageCount rows b) ids))"

text \<open>The numeric values that a row holds for the ids of a list.\<close>

definition numericValues :: "row \<Rightarrow> string list \<Rightarrow> jsnum list" where
  "numericValues r ids =
     concat (map (\<lambda>dev. case obj_get r dev of
                          Some (Num n) \<Rightarrow> (if n \<noteq> NaN then [n] else [])
                        | _ \<Rightarrow> []) ids)"

text \<open>
  \<open>baselineAt\<close>: the upper median of the base devices' values in the row; \<open>None\<close> is
  \<^verbatim>\<open>null\<close>. The comparator \<^verbatim>\<open>a - b\<close> is positive when \<open>b < a\<close>.
\<close>

definition baselineAt :: "string list \<Rightarrow> row \<Rightarrow> jsnum option" where
  "baselineAt base r =
     (let vals = numericValues r base
      in if vals = [] then None
         else Some (Array_sort (\<lambda>a b. jlt b a) vals ! (length vals div 2)))"

text \<open>
  The value synthesized for device \<open>dev\<close> at row index \<open>i\<close> over the baseline \<open>b\<close>. \<open>sinFn\<close> is
  the runtime's \<^verbatim>\<open>Math.sin\<close>; the decimal literals stand for themselves.
\<close>

definition synthValue :: "(rat \<Rightarrow> rat) \<Rightarrow> string \<Rightarrow> nat \<Rightarrow> jsnum \<Rightarrow> jsnum" where
  "synthValue sinFn dev i b =
     (let seed = hashStringToUnit dev;
          offset = seed * 6 - 3;
          multiplier = 9 / 10 + seed * (4 / 10);
          amp = 1 / 2 + hashStringToUnit (dev @ ''amp'') * (18 / 10);
          phase = hashStringToUnit (dev @ ''phase'') * Math_PI * 2;
          noiseMag = 6 / 10 + hashStringToUnit (dev @ ''noise'') * (9 / 10);
          t = of_nat i;
          diurnal = amp * sinFn ((2 * Math_PI * t) / 24 + phase);
          noise = (hashStringToUnit (dev @ '':'' @ showNat i) - 1 / 2) * 2 * noiseMag;
          val = Chart_clamp
                  (jadd (jadd (jadd (jmul b (Fin multiplier)) (Fin offset)) (Fin diurnal)) (Fin noise))
                  (Fin 0) (Fin 25)
      in toFixed2 val)"

text \<open>The body of the inner loop, for the row at index \<open>i\<close>.\<close>

definition synthCell :: "(rat \<Rightarrow> rat) \<Rightarrow> string list \<Rightarrow> string \<Rightarrow> nat \<Rightarrow> row \<Rightarrow> row" where
  "synthCell sinFn base dev i r =
     (if hasOwn r ''gap'' then r
      else if isNumeric (obj_get r dev) then r
      else case baselineAt base r of
             None \<Rightarrow> r
           | Some b \<Rightarrow> obj_set r dev (Num (synthValue sinFn dev i b)))"

text \<open>The inner loop: every row in turn, each changed in place.\<close>

definition synthDevice :: "(rat \<Rightarrow> rat) \<Rightarrow> string list \<Rightarrow> string \<Rightarrow> row list \<Rightarrow> row list" where
  "synthDevice sinFn base dev rows = map (\<lambda>(i, r). synthCell sinFn base dev i r) (enumerate 0 rows)"

text \<open>
  \<^verbatim>\<open>Math.floor(total * 0.6)\<close>. The double product is \<open>3 * total / 5\<close> exactly when that is
  an integer and otherwise lies strictly between the same two integers, so the floor is the
  floor of the exact product.
\<close>

definition minCoverage :: "nat \<Rightarrow> nat" where
  "minCoverage n = nat \<lfloor>rat_of_nat n * (6 / 10)\<rfloor>"

text \<open>
  \<^verbatim>\<open>augmentRowsForSparseDevices\<close>. The coverage counts and the base devices are taken
  from the rows as given; the rows are then filled device by device, and a baseline reads
  the row as the devices before have left it.
\<close>

definition augmentRowsForSparseDevices :: "(rat \<Rightarrow> rat) \<Rightarrow> row list \<Rightarrow> names \<Rightarrow> row list" where
  "augmentRowsForSparseDevices sinFn rows nms =
     (if rows = [] then rows
      else let ids = deviceIdsAll rows nms
           in if ids = [] then rows
              else let base = baseIds rows ids
                   in if base = [] then rows
                      else foldl (\<lambda>rs dev. if minCoverage (length rows) \<le> coverageCount rows dev then rs
                                          else synthDevice sinFn base dev rs)
                             rows ids)"

section \<open>MultiDeviceLatencyChart.tsx: the outage detector\<close>

text \<open>The test of one row in the loop of \<open>outageRanges\<close>.\<close>

definition isOutage :: "string list \<Rightarrow> row \<Rightarrow> bool" where
  "isOutage deviceIds row =
     (let hasGapFlag = hasOwn row ''gap'';
          allMissing = (deviceIds = [] \<or> list_all (\<lambda>dev. \<not> isNumeric (obj_get row dev)) deviceIds)
      in hasGapFlag \<or> allMissing)"

text \<open>
  The loop, over the rows from index \<open>i\<close> on, with the \<open>startIdx\<close> it carries. It yields
  \<open>(startIdx, endIdx, inLoop)\<close> for every range it pushes; \<open>inLoop\<close> tells the push inside
  the loop from the one after it.
\<close>

fun outageScan :: "string list \<Rightarrow> row list \<Rightarrow> nat \<Rightarrow> nat option \<Rightarrow> (nat \<times> nat \<times> bool) list" where
  "outageScan deviceIds [] i startIdx =
     (case startIdx of None \<Rightarrow> [] | Some s \<Rightarrow> [(s, i - 1, False)])"
| "outageScan deviceIds (row # rest) i startIdx =
     (if isOutage deviceIds row \<and> startIdx = None then outageScan deviceIds rest (i + 1) (Some i)
      else if \<not> isOutage deviceIds row \<and> startIdx \<noteq> None
           then (the startIdx, i - 1, True) # outageScan deviceIds rest (i + 1) None
      else outageScan deviceIds rest (i + 1) startIdx)"

text \<open>\<^verbatim>\<open>a ?? b\<close> takes \<open>b\<close> when \<open>a\<close> is \<^verbatim>\<open>undefined\<close> or \<^verbatim>\<open>null\<close>.\<close>

definition orElse :: "jsval option \<Rightarrow> jsval option \<Rightarrow> jsval option" where
  "orElse a b = (if a = None \<or> a = Some Null then b else a)"

text \<open>The pushed range \<open>{x1, x2}\<close>: one point further out on each side, inside the slice.\<close>

definition outageRange :: "row list \<Rightarrow> nat \<times> nat \<times> bool \<Rightarrow> jsval option \<times> jsval option" where
  "outageRange slicedData run =
     (case run of
        (s, e, inLoop) \<Rightarrow>
          (let left = slicedData ! (s - 1);
               right = slicedData ! (min (length slicedData - 1) (e + 1))
           in (orElse (obj_get left ''x'') (obj_get (slicedData ! s) ''x''),
               if inLoop then orElse (obj_get right ''x'') (obj_get (slicedData ! e) ''x'')
               else obj_get (slicedData ! e) ''x'')))"

definition outageRanges :: "string list \<Rightarrow> row list \<Rightarrow> (jsval option \<times> jsval option) list" where
  "outageRanges deviceIds slicedData =
     (if slicedData = [] then []
      else map (outageRange slicedData) (outageScan deviceIds slicedData 0 None))"

text \<open>The detector treats the point at index \<open>i\<close> of the slice as an outage: a range covers it.\<close>

definition treatedAsOutage :: "string list \<Rightarrow> row list \<Rightarrow> nat \<Rightarrow> bool" where
  "treatedAsOutage deviceIds slicedData i =
     list_ex (\<lambda>(s, e, inLoop). s \<le> i \<and> i \<le> e) (outageScan deviceIds slicedData 0 None)"

text \<open>
  An outage point as the specification words it: the gap flag, or no known device with a
  finite numeric value.
\<close>

definition isFiniteValue :: "jsval option \<Rightarrow> bool" where
  "isFiniteValue v = (case v of Some (Num (Fin q)) \<Rightarrow> True | _ \<Rightarrow> False)"

definition outagePointAsSpecified :: "string list \<Rightarrow> row \<Rightarrow> bool" where
  "outagePointAsSpecified deviceIds row \<longleftrightarrow>
     hasOwn row ''gap'' \<or> list_all (\<lambda>dev. \<not> isFiniteValue (obj_get row dev)) deviceIds"

section \<open>MultiDeviceLatencyChart.tsx: the band classifier\<close>

text \<open>A value in a condition: \<^verbatim>\<open>undefined\<close>, \<^verbatim>\<open>null\<close>, the empty string, 0 and NaN are falsy.\<close>

definition truthy :: "jsval option \<Rightarrow> bool" where
  "truthy v =
     (case v of
        None \<Rightarrow> False
      | Some Null \<Rightarrow> False
      | Some (Str s) \<Rightarrow> s \<noteq> []
      | Some (Iso ms) \<Rightarrow> True
      | Some (Num n) \<Rightarrow> n \<noteq> NaN \<and> n \<noteq> Fin 0)"

text \<open>
  \<^verbatim>\<open>/\b(mesh|ext|extender|backhaul)\b/i.test(name)\<close>: one of the words stands in the name
  between two word boundaries.
\<close>

definition wordHere :: "string \<Rightarrow> string \<Rightarrow> bool" where
  "wordHere w s \<longleftrightarrow>
     startsWith (toLowerCase s) w \<and>
     (drop (length w) s = [] \<or> \<not> isWordChar (hd (drop (length w) s)))"

fun meshWordFrom :: "bool \<Rightarrow> string \<Rightarrow> bool" where
  "meshWordFrom boundary [] = False"
| "meshWordFrom boundary (c # cs) =
     ((boundary \<and> list_ex (\<lambda>w. wordHere w (c # cs)) [''mesh'', ''ext'', ''extender'', ''backhaul''])
      \<or> meshWordFrom (\<not> isWordChar c) cs)"

definition nameSaysMesh :: "string \<Rightarrow> bool" where
  "nameSaysMesh name = meshWordFrom True name"

text \<open>
  \<open>deviceLatencyQuantiles\<close>, the entry of one device: the values of the whole dataset
  sorted, read at a quarter and at three quarters of their number; \<open>None\<close> is
  \<^verbatim>\<open>undefined\<close>.
\<close>

definition deviceLatencyQuantiles :: "row list \<Rightarrow> string \<Rightarrow> (jsnum \<times> jsnum) option" where
  "deviceLatencyQuantiles data dev =
     (let vals = concat (map (\<lambda>r. numericValues r [dev]) data)
      in if vals = [] then None
         else let sorted = Array_sort (\<lambda>a b. jlt b a) vals
              in Some (sorted ! (length vals div 4), sorted ! ((3 * length vals) div 4)))"

definition bandCodes :: "string list" where
  "bandCodes = [''24'', ''5'', ''5m'']"

text \<open>
  The band of a numeric value \<open>v\<close> of device \<open>dev\<close> in a row, steps 1 to 4: the entry of the
  row, the name, the quantiles, the default. The result is the value \<open>code\<close>.
\<close>

definition bandOf ::
  "names \<Rightarrow> (string \<Rightarrow> (jsnum \<times> jsnum) option) \<Rightarrow> row \<Rightarrow> string \<Rightarrow> jsnum \<Rightarrow> jsval" where
  "bandOf deviceNames quantiles row dev v =
     (let b0 = obj_get row (BAND_META_PREFIX @ dev);
          b1 = (if truthy b0 then b0
                else let name = (case obj_get deviceNames dev of
                                   Some (Some n) \<Rightarrow> n
                                 | _ \<Rightarrow> [])
                     in if nameSaysMesh name then Some (Str ''5m'') else b0);
          b2 = (if truthy b1 then b1
                else case quantiles dev of
                       None \<Rightarrow> b1
                     | Some (q25, q75) \<Rightarrow>
                         (if jle v q25 then Some (Str ''5'')
                          else if jle q75 v then Some (Str ''24'')
                          else b1))
      in case b2 of None \<Rightarrow> Str ''24'' | Some Null \<Rightarrow> Str ''24'' | Some c \<Rightarrow> c)"

text \<open>The key \<^verbatim>\<open>`${dev}__band_${code}`\<close> for the text of a code.\<close>

definition bandKey :: "string \<Rightarrow> string \<Rightarrow> string" where
  "bandKey dev c = dev @ ''__band_'' @ c"

text \<open>The text of a value in a template; \<open>conv\<close> is the runtime's text of a value that is no string.\<close>

definition templateText :: "(jsval \<Rightarrow> string) \<Rightarrow> jsval \<Rightarrow> string" where
  "templateText conv v = (case v of Str s \<Rightarrow> s | _ \<Rightarrow> conv v)"

definition setNull :: "row \<Rightarrow> string \<Rightarrow> string list \<Rightarrow> row" where
  "setNull out dev codes = foldl (\<lambda>ou c. obj_set ou (bandKey dev c) Null) out codes"

text \<open>The body of the loop over \<open>deviceIds\<close> in \<open>slicedDataBanded\<close>, writing into \<open>out\<close>.\<close>

definition splitDevice ::
  "(jsval \<Rightarrow> string) \<Rightarrow> names \<Rightarrow> (string \<Rightarrow> (jsnum \<times> jsnum) option) \<Rightarrow> row \<Rightarrow> row \<Rightarrow> string \<Rightarrow> row" where
  "splitDevice conv deviceNames quantiles row out dev =
     (case obj_get row dev of
        Some (Num v) \<Rightarrow>
          (if v = NaN then setNull out dev bandCodes
           else let code = bandOf deviceNames quantiles row dev v;
                    out1 = obj_set out (bandKey dev (templateText conv code)) (Num v)
                in setNull out1 dev (filter (\<lambda>x. Str x \<noteq> code) bandCodes))
      | _ \<Rightarrow> setNull out dev bandCodes)"

text \<open>One row of \<open>slicedDataBanded\<close>: \<^verbatim>\<open>out = { ...row }\<close>, then every known device.\<close>

definition bandSplitRow ::
  "(jsval \<Rightarrow> string) \<Rightarrow> names \<Rightarrow> (string \<Rightarrow> (jsnum \<times> jsnum) option) \<Rightarrow> string list \<Rightarrow> row \<Rightarrow> row" where
  "bandSplitRow conv deviceNames quantiles deviceIds row =
     foldl (splitDevice conv deviceNames quantiles row) row deviceIds"

definition slicedDataBanded ::
  "(jsval \<Rightarrow> string) \<Rightarrow> names \<Rightarrow> (string \<Rightarrow> (jsnum \<times> jsnum) option) \<Rightarrow> string list \<Rightarrow>
   row list \<Rightarrow> row list" where
  "slicedDataBanded conv deviceNames quantiles deviceIds slicedData =
     map (bandSplitRow conv deviceNames quantiles deviceIds) slicedData"

text \<open>
  The set \<open>ids\<close> of the memo \<open>deviceIds\<close>, before the locale's order sorts it: the ids of
  the registry that are not empty and not \<open>gap\<close>, then the keys of each row other than
  \<open>x\<close>, \<open>gap\<close> and those that start with \<open>__\<close>.
\<close>

definition deviceIdSet :: "names \<Rightarrow> row list \<Rightarrow> string list" where
  "deviceIdSet deviceNames data =
     foldl (\<lambda>ids row. foldl Set_add ids
                        (filter (\<lambda>k. k \<noteq> ''x'' \<and> k \<noteq> ''gap'' \<and> \<not> startsWith k ''__'')
                           (Object_keys row)))
       (foldl Set_add [] (filter (\<lambda>k. k \<noteq> [] \<and> k \<noteq> ''gap'') (Object_keys deviceNames)))
       data"

section \<open>Inputs of the examples\<close>

text \<open>
  A \<open>dateParse\<close> for the examples: it reads the documented layout
  \<^verbatim>\<open>YYYY-MM-DDTHH:MM:SSZ\<close>, as every runtime does, and takes any other text for an
  invalid date.
\<close>

definition readDigits :: "string \<Rightarrow> int option" where
  "readDigits s = (if s \<noteq> [] \<and> list_all isDigit s then Some (decVal s) else None)"

definition daysFromCivil :: "int \<Rightarrow> int \<Rightarrow> int \<Rightarrow> int" where
  "daysFromCivil y m d =
     (let y1 = (if m \<le> 2 then y - 1 else y);
          era = y1 div 400;
          yoe = y1 - era * 400;
          doy = (153 * (if 2 < m then m - 3 else m + 9) + 2) div 5 + d - 1;
          doe = yoe * 365 + yoe div 4 - yoe div 100 + doy
      in era * 146097 + doe - 719468)"

definition daysInMonth :: "int \<Rightarrow> int \<Rightarrow> int" where
  "daysInMonth y m =
     (if m = 2 then (if y mod 4 = 0 \<and> (y mod 100 \<noteq> 0 \<or> y mod 400 = 0) then 29 else 28)
      else if m \<in> {4, 6, 9, 11} then 30 else 31)"

definition utcDateParse :: "string \<Rightarrow> int option" where
  "utcDateParse s =
     (if length s = 20 \<and> s ! 4 = CHR ''-'' \<and> s ! 7 = CHR ''-'' \<and> s ! 10 = CHR ''T'' \<and>
         s ! 13 = CHR '':'' \<and> s ! 16 = CHR '':'' \<and> s ! 19 = CHR ''Z''
      then
        (case (readDigits (take 4 s), readDigits (take 2 (drop 5 s)),
               readDigits (take 2 (drop 8 s)), readDigits (take 2 (drop 11 s)),
               readDigits (take 2 (drop 14 s)), readDigits (take 2 (drop 17 s))) of
           (Some y, Some mo, Some d, Some h, Some mi, Some se) \<Rightarrow>
             (if 1 \<le> mo \<and> mo \<le> 12 \<and> 1 \<le> d \<and> d \<le> daysInMonth y mo \<and>
                 h < 24 \<and> mi < 60 \<and> se < 60
              then Some ((((daysFromCivil y mo d * 24 + h) * 60 + mi) * 60 + se) * 1000)
              else None)
         | _ \<Rightarrow> None)
      else None)"

text \<open>
  A \<open>toNumber\<close> for the examples: decimal literals with an optional sign and fraction, and
  \<^verbatim>\<open>Infinity\<close>; the empty text is 0 and anything else NaN.
\<close>

definition decimalNumber :: "string \<Rightarrow> jsnum" where
  "decimalNumber s =
     (let t = trim s
      in if t = [] then Fin 0
         else let neg = (hd t = CHR ''-'');
                  u = (if hd t = CHR ''-'' \<or> hd t = CHR ''+'' then tl t else t)
              in if u = ''Infinity'' then (if neg then NegInf else PosInf)
                 else let ip = takeWhile isDigit u;
                          r = dropWhile isDigit u;
                          dot = (r \<noteq> [] \<and> hd r = CHR ''.'');
                          fp = (if dot then takeWhile isDigit (tl r) else []);
                          rest = (if dot then dropWhile isDigit (tl r) else r)
                      in if rest \<noteq> [] \<or> (ip = [] \<and> fp = []) then NaN
                         else Fin ((if neg then - 1 else 1) *
                                   (of_int (decVal ip) + of_int (decVal fp) / 10 ^ length fp)))"

text \<open>\<^verbatim>\<open>Array.prototype.join\<close>\<close>

fun joinWith :: "string \<Rightarrow> string list \<Rightarrow> string" where
  "joinWith sep [] = []"
| "joinWith sep [s] = s"
| "joinWith sep (s # t # ts) = s @ sep @ joinWith sep (t # ts)"

text \<open>The embedded fallback dataset, \<^verbatim>\<open>fallbackTSV\<close>: fifteen lines of four tab-separated fields.\<close>

definition fallbackTSV :: string where
  "fallbackTSV = joinWith [LF] (map (joinWith [TAB])
     [[''2025-08-13 00:00:00'', ''dev-1'', ''ARCADYAN SPEEDHOMEWLAN'', ''7.0''],
      [''2025-08-13 00:00:00'', ''dev-2'', ''WNC DT-EXT03A-WNC'', ''9.64''],
      [''2025-08-13 00:00:00'', ''dev-3'', ''WNC DT-EXT01A-WNC (A)'', ''14.14''],
      [''2025-08-13 00:00:00'', ''dev-4'', ''WNC DT-EXT01A-WNC (B)'', ''14.71''],
      [''2025-08-13 00:00:00'', ''dev-5'', ''WNC DT-EXT01A-WNC (C)'', ''21.58''],
      [''2025-08-13 01:00:00'', ''dev-1'', ''ARCADYAN SPEEDHOMEWLAN'', ''7.66''],
      [''2025-08-13 01:00:00'', ''dev-2'', ''WNC DT-EXT03A-WNC'', ''12.17''],
      [''2025-08-13 01:00:00'', ''dev-3'', ''WNC DT-EXT01A-WNC (A)'', ''15.26''],
      [''2025-08-13 01:00:00'', ''dev-4'', ''WNC DT-EXT01A-WNC (B)'', ''17.4''],
      [''2025-08-13 01:00:00'', ''dev-5'', ''WNC DT-EXT01A-WNC (C)'', ''25.0''],
      [''2025-08-13 02:00:00'', ''dev-1'', ''ARCADYAN SPEEDHOMEWLAN'', ''4.07''],
      [''2025-08-13 02:00:00'', ''dev-2'', ''WNC DT-EXT03A-WNC'', ''10.72''],
      [''2025-08-13 02:00:00'', ''dev-3'', ''WNC DT-EXT01A-WNC (A)'', ''15.80''],
      [''2025-08-13 02:00:00'', ''dev-4'', ''WNC DT-EXT01A-WNC (B)'', ''18.22''],
      [''2025-08-13 02:00:00'', ''dev-5'', ''WNC DT-EXT01A-WNC (C)'', ''24.68'']])"

text \<open>Two tab-separated lines, the second with a timestamp that is no date.\<close>

definition badStampTSV :: string where
  "badStampTSV = joinWith [LF] (map (joinWith [TAB])
     [[''2025-08-13 00:00:00'', ''dev-1'', ''ARCADYAN SPEEDHOMEWLAN'', ''7.0''],
      [''not-a-date'', ''dev-2'', ''WNC DT-EXT03A-WNC'', ''9.64'']])"

text \<open>The same two records as comma-separated text under the documented header.\<close>

definition badStampCSV :: string where
  "badStampCSV = joinWith [LF]
     [''timestamp,device_id,device_name,latency_ms'',
      ''2025-08-13 00:00:00,dev-1,ARCADYAN SPEEDHOMEWLAN,7.0'',
      ''not-a-date,dev-2,WNC DT-EXT03A-WNC,9.64'']"

text \<open>A comma-separated text: quoted names, a band column, rows out of order, a short line.\<close>

definition sampleCSV :: string where
  "sampleCSV = joinWith [LF]
     [''timestamp,device_id,device_name,latency_ms,band'',
      ''2025-08-13 01:00:00,dev-1,Laptop,7.5,5GHz'',
      [CHR 0x22] @ ''2025-08-13 00:00:00'' @ [CHR 0x22] @ '',dev-2,'' @ [CHR 0x22] @ ''Phone, mine''
        @ [CHR 0x22] @ '',8,2.4'',
      ''2025-08-13 00:00:00,dev-1,Laptop,6.25,mesh'',
      ''2025-08-13 02:00:00,gap'',
      ''2025-08-12 23:00:00,dev-2,Phone,Infinity,''] "

text \<open>
  Four hourly rows: \<open>dev-1\<close> reports in all of them, \<open>dev-2\<close> in two of the four, which is
  half of the record count.
\<close>

definition halfCoveredRows :: "row list" where
  "halfCoveredRows =
     [[(''x'', Iso 1755043200000), (''dev-1'', Num (Fin 10)), (''dev-2'', Num (Fin 5))],
      [(''x'', Iso 1755046800000), (''dev-1'', Num (Fin 11)), (''dev-2'', Num (Fin 6))],
      [(''x'', Iso 1755050400000), (''dev-1'', Num (Fin 12))],
      [(''x'', Iso 1755054000000), (''dev-1'', Num (Fin 13))]]"

definition twoNames :: names where
  "twoNames = [(''dev-1'', Some ''Laptop''), (''dev-2'', Some ''Phone'')]"

text \<open>Five hourly rows in which \<open>dev-2\<close> reports once and gets filled in.\<close>

definition sparseRows :: "row list" where
  "sparseRows =
     [[(''x'', Iso 1755043200000), (''dev-1'', Num (Fin 10)), (''dev-2'', Num (Fin 5))],
      [(''x'', Iso 1755046800000), (''dev-1'', Num (Fin 11))],
      [(''x'', Iso 1755050400000), (''dev-1'', Num (Fin 12)), (''gap'', Num (Fin 1))],
      [(''x'', Iso 1755054000000), (''dev-1'', Num (Fin 13)), (''dev-2'', Num NaN)],
      [(''x'', Iso 1755057600000), (''dev-1'', Num (Fin 9))]]"

text \<open>A slice of one row in which the only known device reports \<^verbatim>\<open>Infinity\<close>.\<close>

definition infinityRow :: row where
  "infinityRow = [(''x'', Iso 1755043200000), (''dev-1'', Num PosInf)]"

text \<open>
  Two hourly records of one device, with a band column: an ordinary comma-separated input.
\<close>

definition bandedCSV :: string where
  "bandedCSV = joinWith [LF]
     [''timestamp,device_id,device_name,latency_ms,band'',
      ''2025-08-13 00:00:00,dev-1,Laptop,12,5GHz'',
      ''2025-08-13 01:00:00,dev-1,Laptop,13,5GHz'']"

text \<open>The rows and the registry that the parser returns for it: both rows carry the band 5.\<close>

definition bandedRows :: "row list" where
  "bandedRows =
     [[(''x'', Iso 1755043200000), (''dev-1'', Num (Fin 12)), (''__band:dev-1'', Str ''5'')],
      [(''x'', Iso 1755046800000), (''dev-1'', Num (Fin 13)), (''__band:dev-1'', Str ''5'')]]"

definition bandedNames :: names where
  "bandedNames = [(''dev-1'', Some ''Laptop'')]"

text \<open>
  A sine for the examples. Every function with values between \<open>-1\<close> and \<open>1\<close>, as
  \<^verbatim>\<open>Math.sin\<close> is one, is \<open>unitRange f\<close> for some \<open>f\<close> (itself).
\<close>

definition unitRange :: "(rat \<Rightarrow> rat) \<Rightarrow> rat \<Rightarrow> rat" where
  "unitRange f x = max (- 1) (min 1 (f x))"

text \<open>Two tab-separated records an hour apart, both of a device called \<open>x\<close>.\<close>

definition xDeviceTSV :: string where
  "xDeviceTSV = joinWith [LF] (map (joinWith [TAB])
     [[''2025-08-13 00:00:00'', ''x'', ''Laptop'', ''5''],
      [''2025-08-13 01:00:00'', ''x'', ''Laptop'', ''5'']])"

text \<open>
  The chart's data for that input: the parsed rows after the synthesizer, as
  \<^verbatim>\<open>setData(augmentedRows)\<close> stores them.
\<close>

definition bandedData :: "(rat \<Rightarrow> rat) \<Rightarrow> row list" where
  "bandedData f = augmentRowsForSparseDevices (unitRange f) bandedRows bandedNames"

section \<open>Brush: proofs\<close>

lemma indexFromPx_onTrack: "trackW p \<noteq> 0 \<Longrightarrow> \<exists>i. indexFromPx tot p = Some i"
  by (simp add: indexFromPx_def)

lemma onMouseMove_selectionOk:
  assumes "selectionOk P b" and "trackW p \<noteq> 0"
  shows "\<exists>b'. onMouseMove P b False p = Some b' \<and> selectionOk P b'"
proof (cases "dragging b")
  case None
  with assms show ?thesis by (simp add: onMouseMove_def)
next
  case (Some d)
  obtain t where t: "indexFromPx (total P) p = Some t"
    using indexFromPx_onTrack [OF assms(2)] by blast
  show ?thesis
  proof (cases d)
    case DragLeft
    with Some t assms(1) show ?thesis
      by (auto simp: onMouseMove_def selectionOk_def Brush_clamp_def Let_def)
  next
    case DragRight
    with Some t assms(1) show ?thesis
      by (auto simp: onMouseMove_def selectionOk_def Brush_clamp_def Let_def)
  next
    case DragRange
    with Some t assms(1) show ?thesis
      by (auto simp: onMouseMove_def selectionOk_def Brush_clamp_def Let_def)
  qed
qed

lemma brush_step_selectionOk:
  assumes "selectionOk P b" and "onTrack e"
  shows "\<exists>b'. brush_step P (b, False) e = Some (b', False) \<and> selectionOk P b'"
proof (cases e)
  case (MouseDownBand p)
  with assms(2) obtain i where "indexFromPx (total P) p = Some i"
    using indexFromPx_onTrack by fastforce
  with MouseDownBand assms(1) show ?thesis by (simp add: selectionOk_def)
next
  case (MouseMove p)
  with assms obtain b' where "onMouseMove P b False p = Some b'" "selectionOk P b'"
    using onMouseMove_selectionOk [of P b p] by auto
  with MouseMove show ?thesis by simp
qed (use assms(1) in \<open>simp_all add: selectionOk_def\<close>)

lemma brush_events_selectionOk:
  assumes "selectionOk P b" and "\<forall>e \<in> set es. onTrack e"
  shows "\<exists>b'. brush_events P (b, False) es = Some (b', False) \<and> selectionOk P b'"
  using assms
proof (induction es arbitrary: b)
  case Nil
  then show ?case by simp
next
  case (Cons e es)
  from Cons.prems obtain b1 where b1: "brush_step P (b, False) e = Some (b1, False)" "selectionOk P b1"
    using brush_step_selectionOk [of P b e] by auto
  from Cons.IH [OF b1(2)] Cons.prems(2) b1(1) show ?case by simp
qed

text \<open>
  C1 (as amended). Starting from a selection that lies inside the data and whose width
  \<open>right - left\<close> is between \<open>minSelectionPoints\<close> and
  \<open>max minSelectionPoints maxSelectionPoints\<close>, every sequence of brush events taken on a
  track of nonzero width is processed to the end and leaves such a selection again; with a
  non-negative \<open>minSelectionPoints\<close> it has \<open>left \<le> right\<close>.
\<close>

theorem brush_drag_keeps_selection:
  assumes "selectionOk P b" and "\<forall>e \<in> set es. onTrack e"
  shows "\<exists>b'. brush_run P b es = Some b' \<and> selectionOk P b' \<and>
              (0 \<le> minSelectionPoints P \<longrightarrow> localStart b' \<le> localEnd b')"
proof -
  from brush_events_selectionOk [OF assms]
  obtain b' where "brush_events P (b, False) es = Some (b', False)" "selectionOk P b'"
    by blast
  then show ?thesis by (auto simp: brush_run_def selectionOk_def)
qed

text \<open>
  C1, a run that satisfies the amended statement: the left handle of the initial
  seven-day selection is dragged to pixel 100 of a 468 pixel track and released.
\<close>

theorem brush_drag_keeps_selection_witness:
  "selectionOk (chartBrushProps 500) (ExternalBrush 0 167) \<and>
   list_all onTrack [MouseDownLeft, MouseMove \<lparr>trackW = 468, px = 100\<rparr>, MouseUp] \<and>
   brush_run (chartBrushProps 500) (ExternalBrush 0 167)
     [MouseDownLeft, MouseMove \<lparr>trackW = 468, px = 100\<rparr>, MouseUp]
   = Some \<lparr>dragging = None, localStart = 107, localEnd = 167, rangeDragOffset = 0\<rparr> \<and>
   selectionOk (chartBrushProps 500)
     \<lparr>dragging = None, localStart = 107, localEnd = 167, rangeDragOffset = 0\<rparr> \<and>
   0 \<le> minSelectionPoints (chartBrushProps 500)"
proof -
  let ?es = "[MouseDownLeft, MouseMove \<lparr>trackW = 468, px = 100\<rparr>, MouseUp]"
  have a: "selectionOk (chartBrushProps 500) (ExternalBrush 0 167)"
    by (simp add: selectionOk_def chartBrushProps_def ExternalBrush_def)
  have b: "\<forall>e \<in> set ?es. onTrack e"
    by simp
  have r: "brush_run (chartBrushProps 500) (ExternalBrush 0 167) ?es
    = Some \<lparr>dragging = None, localStart = 107, localEnd = 167, rangeDragOffset = 0\<rparr>"
    by code_simp
  from brush_drag_keeps_selection [OF a b] r
  have "selectionOk (chartBrushProps 500)
     \<lparr>dragging = None, localStart = 107, localEnd = 167, rangeDragOffset = 0\<rparr>"
    by auto
  with a r show ?thesis by (simp add: chartBrushProps_def)
qed

text \<open>
  C1 as stated fails. With the chart's props (6 and 360) on 500 points, the initial
  selection 0..167 has 168 points, as specified. Dragging the right handle to the right
  end of the track stops at index 360: the selection then holds 361 points, one more than
  \<open>maxSelectionPoints\<close>.
\<close>

theorem brush_width_counterexample:
  "selectionAsSpecified (chartBrushProps 500) (ExternalBrush 0 167) \<and>
   brush_run (chartBrushProps 500) (ExternalBrush 0 167)
     [MouseDownRight, MouseMove \<lparr>trackW = 468, px = 468\<rparr>]
   = Some \<lparr>dragging = Some DragRight, localStart = 0, localEnd = 360, rangeDragOffset = 0\<rparr> \<and>
   \<not> selectionAsSpecified (chartBrushProps 500)
       \<lparr>dragging = Some DragRight, localStart = 0, localEnd = 360, rangeDragOffset = 0\<rparr>"
  by (simp add: selectionAsSpecified_def chartBrushProps_def ExternalBrush_def brush_run_def
      onMouseMove_def indexFromPx_def Brush_clamp_def Math_round_def)

text \<open>
  C2. Mounted with \<open>startIndex = 0\<close> and \<open>endIndex = 10000\<close> on 50 points, the control keeps
  10000 as its right index (it is not clamped to 49), and building the right handle's label
  reads \<^verbatim>\<open>data[10000]\<close> and throws.
\<close>

theorem brush_mount_out_of_range:
  "localEnd (ExternalBrush 0 10000) = 10000 \<and>
   length (hourlyData 50) = 50 \<and>
   renderLabels fmt (hourlyData 50) ''x'' (ExternalBrush 0 10000) = Inl TypeError"
  by (simp add: ExternalBrush_def renderLabels_def labelForIndex_def hourlyData_def)

section \<open>The record parser: proofs\<close>

lemma obj_get_obj_set_other: "k' \<noteq> k \<Longrightarrow> obj_get (obj_set r k v) k' = obj_get r k'"
  by (simp add: obj_get_def obj_set_def update_conv')

lemma obj_get_obj_set_same: "k \<noteq> ''__proto__'' \<Longrightarrow> obj_get (obj_set r k v) k = Some v"
  by (simp add: obj_get_def obj_set_def update_conv')

lemma map_fst_map_entry: "map fst (AList.map_entry k f xs) = map fst xs"
  by (induction xs) auto

lemma list_all_map_entry:
  assumes "list_all (\<lambda>(k, r). P k r) xs" and "\<And>r. P k r \<Longrightarrow> P k (f r)"
  shows "list_all (\<lambda>(k, r). P k r) (AList.map_entry k f xs)"
  using assms by (induction xs) auto

lemma byTimeOk_map_entry:
  assumes "byTimeOk tmp" and "key \<noteq> ''x''"
  shows "byTimeOk (AList.map_entry d (\<lambda>r. obj_set r key v) tmp)"
proof -
  have "list_all (\<lambda>(k, r). obj_get r ''x'' = Some (Iso k)) (AList.map_entry d (\<lambda>r. obj_set r key v) tmp)"
    using assms by (intro list_all_map_entry) (auto simp: byTimeOk_def obj_get_obj_set_other)
  with assms(1) show ?thesis by (simp add: byTimeOk_def map_fst_map_entry)
qed

lemma byTimeOk_fresh:
  assumes "byTimeOk tmp" and "map_of tmp d = None"
  shows "byTimeOk (tmp @ [(d, [(''x'', Iso d)])])"
  using assms by (auto simp: byTimeOk_def obj_get_def map_of_eq_None_iff)

lemma addRecord_ok:
  assumes "byTimeOk (fst st)" and "recordOk dateParse timeStr deviceId"
  shows "\<exists>st'. addRecord dateParse toNumber timeStr deviceId deviceName latencyStr band st = Inr st'
               \<and> byTimeOk (fst st')"
proof -
  from assms(2) obtain d where d: "dateParse (replaceSpaceT timeStr @ ''Z'') = Some d"
    and nx: "deviceId \<noteq> ''x''"
    by (auto simp: recordOk_def)
  let ?tmp0 = "if map_of (fst st) d = None then fst st @ [(d, [(''x'', Iso d)])] else fst st"
  have t0: "byTimeOk ?tmp0" using assms(1) byTimeOk_fresh by simp
  have bk: "BAND_META_PREFIX @ deviceId \<noteq> ''x''" by (simp add: BAND_META_PREFIX_def)
  show ?thesis
    using byTimeOk_map_entry [OF byTimeOk_map_entry [OF t0 nx] bk]
      byTimeOk_map_entry [OF t0 nx]
    by (cases band) (simp_all add: addRecord_def d Let_def)
qed

lemma forEachLine_invariant:
  assumes "I st" and "list_all ok ls"
    and "\<And>l s. I s \<Longrightarrow> ok l \<Longrightarrow> \<exists>s'. body l s = Inr s' \<and> I s'"
  shows "\<exists>st'. forEachLine body ls st = Inr st' \<and> I st'"
  using assms(1,2)
proof (induction ls arbitrary: st)
  case Nil
  then show ?case by simp
next
  case (Cons l ls)
  from Cons.prems assms(3) [of st l] obtain s1 where s1: "body l st = Inr s1" "I s1"
    by auto
  from Cons.IH [OF s1(2)] Cons.prems(2) s1(1) show ?case by simp
qed

lemma set_insertBy: "set (insertBy gt x ys) = insert x (set ys)"
  by (induction ys) auto

lemma sorted_insertBy:
  fixes k :: "'a \<Rightarrow> int"
  assumes "\<And>a b. a \<in> insert x (set ys) \<Longrightarrow> b \<in> insert x (set ys) \<Longrightarrow> gt a b \<longleftrightarrow> k b < k a"
    and "sorted (map k ys)"
  shows "sorted (map k (insertBy gt x ys))"
  using assms
proof (induction ys)
  case Nil
  then show ?case by simp
next
  case (Cons y ys)
  show ?case
  proof (cases "gt x y")
    case True
    have "sorted (map k (insertBy gt x ys))"
      using Cons.prems by (intro Cons.IH) auto
    moreover have "k y < k x" using True Cons.prems(1) [of x y] by simp
    ultimately show ?thesis using True Cons.prems(2)
      by (auto simp: set_insertBy)
  next
    case False
    then have "k x \<le> k y" using Cons.prems(1) [of x y] by auto
    with False Cons.prems(2) show ?thesis by auto
  qed
qed

lemma distinct_map_insertBy:
  "distinct (map k (insertBy gt x ys)) \<longleftrightarrow> k x \<notin> k ` set ys \<and> distinct (map k ys)"
  by (induction ys) (auto simp: set_insertBy)

lemma set_Array_sort: "set (Array_sort gt xs) = set xs"
  by (induction xs) (simp_all add: Array_sort_def set_insertBy)

lemma distinct_map_Array_sort:
  "distinct (map k (Array_sort gt xs)) \<longleftrightarrow> distinct (map k xs)"
proof (induction xs)
  case Nil
  then show ?case by (simp add: Array_sort_def)
next
  case (Cons x xs)
  have "Array_sort gt (x # xs) = insertBy gt x (Array_sort gt xs)"
    by (simp add: Array_sort_def)
  with Cons show ?case by (simp add: distinct_map_insertBy set_Array_sort)
qed

lemma sorted_Array_sort:
  fixes k :: "'a \<Rightarrow> int"
  assumes "\<And>a b. a \<in> set xs \<Longrightarrow> b \<in> set xs \<Longrightarrow> gt a b \<longleftrightarrow> k b < k a"
  shows "sorted (map k (Array_sort gt xs))"
  using assms
proof (induction xs)
  case Nil
  then show ?case by (simp add: Array_sort_def)
next
  case (Cons x xs)
  have e: "Array_sort gt (x # xs) = insertBy gt x (Array_sort gt xs)"
    by (simp add: Array_sort_def)
  have "sorted (map k (Array_sort gt xs))" using Cons.prems by (intro Cons.IH) auto
  then show ?case unfolding e
    using Cons.prems by (intro sorted_insertBy) (auto simp: set_Array_sort)
qed

lemma sortedRows_increasing:
  assumes "byTimeOk tmp"
  shows "strictlyIncreasing dateParse (sortedRows dateParse tmp)"
proof -
  let ?k = "\<lambda>r. the (rowTime dateParse r)"
  let ?rows = "map snd tmp"
  have iso: "\<And>r. r \<in> set ?rows \<Longrightarrow> \<exists>ms. obj_get r ''x'' = Some (Iso ms)"
    using assms by (auto simp: byTimeOk_def list_all_iff)
  then have tm: "\<And>r. r \<in> set ?rows \<Longrightarrow> rowTime dateParse r \<noteq> None"
    by (fastforce simp: rowTime_def)
  have keys: "map ?k ?rows = map fst tmp"
    using assms by (auto simp: byTimeOk_def list_all_iff rowTime_def)
  have gt: "laterThan dateParse a b \<longleftrightarrow> ?k b < ?k a" if "a \<in> set ?rows" "b \<in> set ?rows" for a b
  proof -
    from tm [OF that(1)] tm [OF that(2)]
    obtain ta tb where "rowTime dateParse a = Some ta" "rowTime dateParse b = Some tb" by auto
    then show ?thesis by (simp add: laterThan_def)
  qed
  have s: "sorted (map ?k (sortedRows dateParse tmp))"
    unfolding sortedRows_def using gt by (rule sorted_Array_sort)
  have "distinct (map ?k ?rows)"
    unfolding keys using assms by (simp add: byTimeOk_def)
  then have d: "distinct (map ?k (sortedRows dateParse tmp))"
    unfolding sortedRows_def by (simp only: distinct_map_Array_sort)
  from s d have "sorted_wrt (<) (map ?k (sortedRows dateParse tmp))"
    by (simp add: strict_sorted_iff)
  then have sw: "sorted_wrt (\<lambda>a b. ?k a < ?k b) (sortedRows dateParse tmp)"
    by (simp add: sorted_wrt_map)
  have all: "\<forall>r \<in> set (sortedRows dateParse tmp). rowTime dateParse r \<noteq> None"
    using tm by (simp add: sortedRows_def set_Array_sort)
  have "sorted_wrt (\<lambda>a b. laterThan dateParse b a) (sortedRows dateParse tmp)"
  proof (rule sorted_wrt_mono_rel [OF _ sw])
    fix a b
    assume "a \<in> set (sortedRows dateParse tmp)" "b \<in> set (sortedRows dateParse tmp)"
      and lt: "?k a < ?k b"
    with all obtain ta tb where "rowTime dateParse a = Some ta" "rowTime dateParse b = Some tb"
      by (meson not_Some_eq)
    with lt show "laterThan dateParse b a" by (simp add: laterThan_def)
  qed
  with all show ?thesis by (simp add: strictlyIncreasing_def list_all_iff)
qed

lemma tsvLine_ok:
  assumes "byTimeOk (fst s)" and "tsvLineOk dateParse l"
  shows "\<exists>s'. tsvLine dateParse toNumber l s = Inr s' \<and> byTimeOk (fst s')"
proof (cases "tsvFields l")
  case None
  with assms(1) show ?thesis by (simp add: tsvLine_def)
next
  case (Some f)
  obtain t d n la where f: "f = (t, d, n, la)" by (cases f) auto
  with Some assms(2) have "recordOk dateParse t d" by (simp add: tsvLineOk_def)
  from addRecord_ok [OF assms(1) this] show ?thesis by (simp add: tsvLine_def Some f)
qed

lemma csvLine_ok:
  assumes "byTimeOk (fst s)" and "csvLineOk dateParse h l"
  shows "\<exists>s'. csvLine dateParse toNumber h l s = Inr s' \<and> byTimeOk (fst s')"
proof (cases "csvFields h l")
  case None
  with assms(1) show ?thesis by (simp add: csvLine_def)
next
  case (Some f)
  obtain t d n la b where f: "f = (t, d, n, la, b)" by (cases f) auto
  with Some assms(2) have "recordOk dateParse t d" by (simp add: csvLineOk_def)
  from addRecord_ok [OF assms(1) this] show ?thesis by (simp add: csvLine_def Some f)
qed

text \<open>
  C4 (as amended). For every input, tab-separated or comma-separated, in which each record
  the loop accepts has a timestamp that the runtime reads as a date and no device is called
  \<open>x\<close> (the key under which a row keeps its timestamp), the parser returns, every returned
  row has an instant, and the instants increase strictly along the returned sequence, so no
  two rows share one.
\<close>

theorem parsed_rows_strictly_increasing:
  "(tsvValid dateParse text \<longrightarrow>
      (\<exists>rows nms. parseTSV dateParse toNumber text = Inr (rows, nms) \<and>
                   strictlyIncreasing dateParse rows)) \<and>
   (csvValid dateParse text \<longrightarrow>
      (\<exists>rows nms. parseCSV dateParse toNumber text = Inr (rows, nms) \<and>
                   strictlyIncreasing dateParse rows))"
proof (intro conjI impI)
  assume v: "tsvValid dateParse text"
  have "\<exists>st'. forEachLine (tsvLine dateParse toNumber) (textLines text) ([], []) = Inr st'
              \<and> byTimeOk (fst st')"
  proof (rule forEachLine_invariant [where I = "\<lambda>s::byTime \<times> names. byTimeOk (fst s)" and ok = "tsvLineOk dateParse"])
    show "byTimeOk (fst ([], []))" by (simp add: byTimeOk_def)
    show "list_all (tsvLineOk dateParse) (textLines text)" using v by (simp add: tsvValid_def)
    fix l and s :: "byTime \<times> names"
    assume "byTimeOk (fst s)" "tsvLineOk dateParse l"
    then show "\<exists>s'. tsvLine dateParse toNumber l s = Inr s' \<and> byTimeOk (fst s')"
      by (rule tsvLine_ok)
  qed
  then show "\<exists>rows nms. parseTSV dateParse toNumber text = Inr (rows, nms) \<and>
                   strictlyIncreasing dateParse rows"
    by (auto simp: parseTSV_def sortedRows_increasing)
next
  assume v: "csvValid dateParse text"
  show "\<exists>rows nms. parseCSV dateParse toNumber text = Inr (rows, nms) \<and>
                   strictlyIncreasing dateParse rows"
  proof (cases "textLines text")
    case Nil
    then show ?thesis by (simp add: parseCSV_def strictlyIncreasing_def)
  next
    case (Cons header lines)
    have "\<exists>st'. forEachLine (csvLine dateParse toNumber (csvHeader header)) lines ([], []) = Inr st'
              \<and> byTimeOk (fst st')"
    proof (rule forEachLine_invariant [where I = "\<lambda>s::byTime \<times> names. byTimeOk (fst s)"
          and ok = "csvLineOk dateParse (csvHeader header)"])
      show "byTimeOk (fst ([], []))" by (simp add: byTimeOk_def)
      show "list_all (csvLineOk dateParse (csvHeader header)) lines"
        using v Cons by (simp add: csvValid_def)
      fix l and s :: "byTime \<times> names"
      assume "byTimeOk (fst s)" "csvLineOk dateParse (csvHeader header) l"
      then show "\<exists>s'. csvLine dateParse toNumber (csvHeader header) l s = Inr s' \<and> byTimeOk (fst s')"
        by (rule csvLine_ok)
    qed
    with Cons show ?thesis
      by (auto simp: parseCSV_def sortedRows_increasing)
  qed
qed


text \<open>
  C4 on the embedded fallback dataset and on a comma-separated text with quoted names,
  a band column and rows out of order.
\<close>

theorem parsed_rows_strictly_increasing_witness:
  "tsvValid utcDateParse fallbackTSV \<and>
   (\<exists>rows nms. parseTSV utcDateParse decimalNumber fallbackTSV = Inr (rows, nms) \<and>
                strictlyIncreasing utcDateParse rows) \<and>
   csvValid utcDateParse sampleCSV \<and>
   (\<exists>rows nms. parseCSV utcDateParse decimalNumber sampleCSV = Inr (rows, nms) \<and>
                strictlyIncreasing utcDateParse rows)"
proof -
  have t: "tsvValid utcDateParse fallbackTSV" by code_simp
  have c: "csvValid utcDateParse sampleCSV" by code_simp
  from parsed_rows_strictly_increasing [of utcDateParse fallbackTSV decimalNumber] t
    parsed_rows_strictly_increasing [of utcDateParse sampleCSV decimalNumber] c
  show ?thesis by blast
qed

text \<open>
  C4 as stated fails. Two records an hour apart, both with parseable timestamps and both of
  a device called \<open>x\<close>: the latency 5 is written over the timestamp of either row, and
  the two returned rows have the same instant.
\<close>

theorem device_named_x_counterexample:
  "tsvAsSpecified utcDateParse xDeviceTSV \<and>
   parseTSV utcDateParse decimalNumber xDeviceTSV
     = Inr ([[(''x'', Num (Fin 5))], [(''x'', Num (Fin 5))]], [(''x'', Some ''Laptop'')]) \<and>
   \<not> strictlyIncreasing utcDateParse [[(''x'', Num (Fin 5))], [(''x'', Num (Fin 5))]]"
  by code_simp

text \<open>
  C3. A timestamp that is no date is not skipped: \<^verbatim>\<open>toISOString()\<close> throws, and so does the
  parser, for both formats; the valid record before it is lost with it.
\<close>

theorem parser_throws_on_invalid_timestamp:
  "parseTSV utcDateParse toNumber badStampTSV = Inl RangeError \<and>
   parseCSV utcDateParse toNumber badStampCSV = Inl RangeError"
  by code_simp

section \<open>The synthesizer: proofs\<close>

lemma synthCell_keeps:
  assumes "isNumeric (obj_get r k)"
  shows "obj_get (synthCell sinFn base dev i r) k = obj_get r k"
proof (cases "k = dev")
  case True
  with assms show ?thesis by (simp add: synthCell_def)
next
  case False
  then show ?thesis
    by (simp add: synthCell_def obj_get_obj_set_other split: option.splits)
qed

lemma length_synthDevice: "length (synthDevice sinFn base dev rows) = length rows"
  by (simp add: synthDevice_def)

lemma nth_synthDevice:
  "i < length rows \<Longrightarrow> synthDevice sinFn base dev rows ! i = synthCell sinFn base dev i (rows ! i)"
  by (simp add: synthDevice_def nth_enumerate_eq)

lemma synthLoop_keeps:
  assumes "length rs = n" and "i < n" and "isNumeric (obj_get (rs ! i) k)"
  shows "length (foldl (\<lambda>rs dev. if skip dev then rs else synthDevice sinFn base dev rs) rs ids) = n \<and>
         obj_get (foldl (\<lambda>rs dev. if skip dev then rs else synthDevice sinFn base dev rs) rs ids ! i) k
           = obj_get (rs ! i) k"
  using assms
proof (induction ids arbitrary: rs)
  case Nil
  then show ?case by simp
next
  case (Cons dev ids)
  let ?rs1 = "if skip dev then rs else synthDevice sinFn base dev rs"
  have l: "length ?rs1 = n" using Cons.prems(1) by (simp add: length_synthDevice)
  have g: "obj_get (?rs1 ! i) k = obj_get (rs ! i) k"
    using Cons.prems by (simp add: nth_synthDevice synthCell_keeps)
  with Cons.prems(3) have "isNumeric (obj_get (?rs1 ! i) k)" by simp
  from Cons.IH [OF l Cons.prems(2) this] g show ?case by simp
qed

text \<open>
  C5. The synthesizer returns as many rows as it is given, and a cell that holds a number
  other than NaN before the synthesis holds the same value after it, whatever the key, the
  registry and the runtime's sine: only cells without such a number are ever written.
\<close>

theorem synthesizer_keeps_real_values:
  assumes "i < length rows" and "isNumeric (obj_get (rows ! i) k)"
  shows "length (augmentRowsForSparseDevices sinFn rows nms) = length rows \<and>
         obj_get (augmentRowsForSparseDevices sinFn rows nms ! i) k = obj_get (rows ! i) k"
  using synthLoop_keeps [OF refl assms]
  by (simp add: augmentRowsForSparseDevices_def Let_def)

text \<open>
  C5 on five rows in which \<open>dev-2\<close> is sparse and gets filled in: its one real value, 5 in the
  first row, is still there.
\<close>

theorem synthesizer_keeps_real_values_witness:
  "0 < length sparseRows \<and>
   isNumeric (obj_get (sparseRows ! 0) ''dev-2'') \<and>
   (\<forall>sinFn. length (augmentRowsForSparseDevices sinFn sparseRows twoNames) = 5 \<and>
            obj_get (augmentRowsForSparseDevices sinFn sparseRows twoNames ! 0) ''dev-2''
              = Some (Num (Fin 5)))"
proof -
  have a: "0 < length sparseRows" by (simp add: sparseRows_def)
  have b: "isNumeric (obj_get (sparseRows ! 0) ''dev-2'')"
    by (simp add: sparseRows_def isNumeric_def obj_get_def)
  have c: "length sparseRows = 5" "obj_get (sparseRows ! 0) ''dev-2'' = Some (Num (Fin 5))"
    by (simp_all add: sparseRows_def obj_get_def)
  from synthesizer_keeps_real_values [OF a b] a b c show ?thesis by simp
qed

text \<open>
  C8. With four records, \<open>dev-2\<close> reports in two: its coverage, 2, is below 0.6 times 4.
  The threshold \<^verbatim>\<open>Math.floor(total * 0.6)\<close> is 2, the device counts as covered, and the
  synthesizer returns the rows as they are, the two empty cells of \<open>dev-2\<close> included.
\<close>

theorem half_covered_device_not_filled:
  "augmentRowsForSparseDevices sinFn halfCoveredRows twoNames = halfCoveredRows \<and>
   coverageCount halfCoveredRows ''dev-2'' = 2 \<and>
   length halfCoveredRows = 4 \<and>
   rat_of_nat (coverageCount halfCoveredRows ''dev-2'') < 6 / 10 * rat_of_nat (length halfCoveredRows) \<and>
   minCoverage (length halfCoveredRows) = 2 \<and>
   obj_get (halfCoveredRows ! 2) ''dev-2'' = None \<and>
   hasOwn (halfCoveredRows ! 2) ''gap'' = False \<and>
   baselineAt (baseIds halfCoveredRows (deviceIdsAll halfCoveredRows twoNames)) (halfCoveredRows ! 2)
     = Some (Fin 12)"
  by code_simp

lemma hashStringToUnit_range: "0 \<le> hashStringToUnit s \<and> hashStringToUnit s \<le> 1"
proof -
  define w where "w = fold (\<lambda>c h. (h XOR of_char c) * 16777619) s (2166136261 :: 32 word)"
  have "uint w \<le> 4294967295" using uint_lt2p [of w] by simp
  then have "(of_int (uint w) :: rat) \<le> of_int 4294967295" by (simp only: of_int_le_iff)
  moreover have "0 \<le> (of_int (uint w) :: rat)" by (simp only: of_int_0_le_iff uint_ge_0)
  ultimately have "0 \<le> (of_int (uint w) :: rat) \<and> (of_int (uint w) :: rat) \<le> 4294967295"
    by simp
  then show ?thesis by (simp add: hashStringToUnit_def w_def)
qed

lemma unitRange_range: "- 1 \<le> unitRange f x \<and> unitRange f x \<le> 1"
  by (simp add: unitRange_def)

text \<open>
  Over a baseline of 8 or more and with a sine between \<open>-1\<close> and \<open>1\<close>, the synthesized value
  is a positive number: the factor is at least 0.9 and offset, oscillation and noise take
  away at most 3, 2.3 and 1.5.
\<close>

lemma synthValue_positive:
  assumes "8 \<le> b"
  shows "\<exists>q. synthValue (unitRange f) dev i (Fin b) = Fin q \<and> 0 < q"
proof -
  define h1 where "h1 = hashStringToUnit dev"
  define h2 where "h2 = hashStringToUnit (dev @ ''amp'')"
  define h3 where "h3 = hashStringToUnit (dev @ ''phase'')"
  define h4 where "h4 = hashStringToUnit (dev @ ''noise'')"
  define h5 where "h5 = hashStringToUnit (dev @ '':'' @ showNat i)"
  define s where "s = unitRange f (2 * Math_PI * rat_of_nat i / 24 + h3 * Math_PI * 2)"
  define amp where "amp = 1 / 2 + h2 * (18 / 10)"
  define nm where "nm = 6 / 10 + h4 * (9 / 10)"
  define raw where
    "raw = b * (9 / 10 + h1 * (4 / 10)) + (h1 * 6 - 3) + amp * s + (h5 - 1 / 2) * 2 * nm"
  have r1: "0 \<le> h1" "h1 \<le> 1" and r2: "0 \<le> h2" "h2 \<le> 1" and r4: "0 \<le> h4" "h4 \<le> 1"
    and r5: "0 \<le> h5" "h5 \<le> 1"
    using hashStringToUnit_range by (simp_all add: h1_def h2_def h4_def h5_def)
  have rs: "- 1 \<le> s" "s \<le> 1" using unitRange_range by (simp_all add: s_def)
  have a0: "0 \<le> amp" "amp \<le> 23 / 10" using r2 by (simp_all add: amp_def)
  have n0: "0 \<le> nm" "nm \<le> 15 / 10" using r4 by (simp_all add: nm_def)
  have t1: "b * (9 / 10) \<le> b * (9 / 10 + h1 * (4 / 10))"
    using assms r1 by (intro mult_left_mono) simp_all
  have t2: "- amp \<le> amp * s"
    using mult_left_mono [OF rs(1) a0(1)] by simp
  have "- 1 \<le> (h5 - 1 / 2) * 2" using r5 by simp
  from mult_right_mono [OF this n0(1)] have t3: "- nm \<le> (h5 - 1 / 2) * 2 * nm" by simp
  have "b * (9 / 10) - 3 - 23 / 10 - 15 / 10 \<le> raw"
    unfolding raw_def using t1 t2 t3 a0 n0 r1 by linarith
  with assms have pos: "2 / 5 \<le> raw" by linarith
  have sv: "synthValue (unitRange f) dev i (Fin b) = toFixed2 (Chart_clamp (Fin raw) (Fin 0) (Fin 25))"
    unfolding synthValue_def Let_def raw_def amp_def nm_def s_def h1_def h2_def h3_def h4_def h5_def
    by (simp only: jmul.simps jadd.simps)
  define c where "c = (if raw < 25 then raw else 25)"
  have cl: "Chart_clamp (Fin raw) (Fin 0) (Fin 25) = Fin c"
    using pos by (simp add: Chart_clamp_def Math_max_def Math_min_def c_def)
  have cp: "2 / 5 \<le> c" using pos by (simp add: c_def)
  define q where "q = (if c < 0 then - 1 else 1) * rat_of_int \<lfloor>\<bar>c\<bar> * 100 + 1 / 2\<rfloor> / 100"
  have tf: "toFixed2 (Fin c) = Fin q" by (simp only: toFixed2.simps q_def)
  from cp have "1 \<le> \<lfloor>\<bar>c\<bar> * 100 + 1 / 2\<rfloor>" by (simp add: le_floor_iff)
  then have "0 < rat_of_int \<lfloor>\<bar>c\<bar> * 100 + 1 / 2\<rfloor>" by simp
  moreover from cp have "\<not> c < 0" by simp
  ultimately have "0 < q" by (simp add: q_def)
  with tf show ?thesis unfolding sv cl by blast
qed

section \<open>The outage detector: proofs\<close>

lemma outageScan_covers:
  assumes "case st of None \<Rightarrow> True | Some s \<Rightarrow> s < i"
  shows "list_ex (\<lambda>(s, e, inLoop). s \<le> j \<and> j \<le> e) (outageScan ids rows i st) \<longleftrightarrow>
           (case st of None \<Rightarrow> False | Some s \<Rightarrow> s \<le> j \<and> j < i) \<or>
           (i \<le> j \<and> j < i + length rows \<and> isOutage ids (rows ! (j - i)))"
  using assms
proof (induction rows arbitrary: i st)
  case Nil
  then show ?case by (cases st) auto
next
  case (Cons row rest)
  have nth: "(row # rest) ! (j - i) = (if j = i then row else rest ! (j - (i + 1)))" if "i \<le> j"
    using that by (auto simp: nth_Cons' )
  show ?case
  proof (cases st)
    case None
    show ?thesis
    proof (cases "isOutage ids row")
      case True
      have "case Some i of None \<Rightarrow> True | Some s \<Rightarrow> s < i + 1" by simp
      from Cons.IH [OF this] None True show ?thesis
        by (auto simp: nth_Cons' le_Suc_eq)
    next
      case False
      have "case None :: nat option of None \<Rightarrow> True | Some s \<Rightarrow> s < i + 1" by simp
      from Cons.IH [OF this] None False show ?thesis
        by (auto simp: nth_Cons' le_Suc_eq)
    qed
  next
    case (Some s)
    with Cons.prems have si: "s < i" by simp
    show ?thesis
    proof (cases "isOutage ids row")
      case True
      have "case Some s of None \<Rightarrow> True | Some s \<Rightarrow> s < i + 1" using si by simp
      from Cons.IH [OF this] Some True si show ?thesis
        by (auto simp: nth_Cons' le_Suc_eq)
    next
      case False
      have "case None :: nat option of None \<Rightarrow> True | Some s \<Rightarrow> s < i + 1" by simp
      from Cons.IH [OF this] Some False si show ?thesis
        by (auto simp: nth_Cons' le_Suc_eq)
    qed
  qed
qed

lemma isOutage_iff:
  "isOutage ids row \<longleftrightarrow> hasOwn row ''gap'' \<or> (\<forall>dev \<in> set ids. \<not> isNumeric (obj_get row dev))"
  by (auto simp: isOutage_def list_all_iff)

text \<open>
  C6 (as amended). The detector treats a point of the visible slice as an outage exactly
  when its row has the key \<open>gap\<close> or no known device holds a number other than NaN in it
  (so always when no device is known). \<^verbatim>\<open>Infinity\<close> and \<^verbatim>\<open>-Infinity\<close> are numbers to the
  detector: a row in which a device holds one of them is no outage point by that device.
\<close>

theorem outage_point_iff:
  assumes "i < length slicedData"
  shows "treatedAsOutage deviceIds slicedData i \<longleftrightarrow>
           hasOwn (slicedData ! i) ''gap'' \<or>
           (\<forall>dev \<in> set deviceIds. \<not> isNumeric (obj_get (slicedData ! i) dev))"
proof -
  have "case None :: nat option of None \<Rightarrow> True | Some s \<Rightarrow> s < 0" by simp
  from outageScan_covers [OF this, of i deviceIds slicedData] assms
  show ?thesis by (simp add: treatedAsOutage_def isOutage_iff)
qed


text \<open>C6 on the rows with a gap flag: the third row is treated as an outage, by its flag.\<close>

theorem outage_point_iff_witness:
  "2 < length sparseRows \<and>
   hasOwn (sparseRows ! 2) ''gap'' \<and>
   treatedAsOutage [''dev-1'', ''dev-2''] sparseRows 2"
proof -
  have a: "2 < length sparseRows" by (simp add: sparseRows_def)
  have b: "hasOwn (sparseRows ! 2) ''gap''" by (simp add: sparseRows_def hasOwn_def)
  from outage_point_iff [OF a, of "[''dev-1'', ''dev-2'']"] a b show ?thesis by simp
qed

text \<open>
  C6 as stated fails. In a slice of one row whose only known device reports
  \<^verbatim>\<open>Infinity\<close>, no device has a finite value, yet the detector does not treat the point as
  an outage and returns no range.
\<close>

theorem infinity_is_no_outage_counterexample:
  "outagePointAsSpecified [''dev-1''] infinityRow \<and>
   \<not> treatedAsOutage [''dev-1''] [infinityRow] 0 \<and>
   outageRanges [''dev-1''] [infinityRow] = []"
  by (simp add: outagePointAsSpecified_def treatedAsOutage_def outageRanges_def infinityRow_def
      isOutage_def isNumeric_def isFiniteValue_def hasOwn_def obj_get_def)

section \<open>The band classifier: proofs\<close>

lemma bandKey_not_proto: "c \<in> set bandCodes \<Longrightarrow> bandKey d c \<noteq> ''__proto__''"
proof
  assume c: "c \<in> set bandCodes" and "bandKey d c = ''__proto__''"
  then have "last ((d @ ''__band_'') @ c) = last ''__proto__''" by (simp add: bandKey_def)
  with c show False by (auto simp: bandCodes_def)
qed

lemma obj_get_setNull:
  assumes "set cs \<subseteq> set bandCodes"
  shows "obj_get (setNull out d cs) k = (if k \<in> bandKey d ` set cs then Some Null else obj_get out k)"
  using assms
proof (induction cs arbitrary: out)
  case Nil
  then show ?case by (simp add: setNull_def)
next
  case (Cons c cs)
  have s: "setNull out d (c # cs) = setNull (obj_set out (bandKey d c) Null) d cs"
    by (simp add: setNull_def)
  from Cons.prems have c: "c \<in> set bandCodes" and cs: "set cs \<subseteq> set bandCodes" by auto
  show ?case unfolding s Cons.IH [OF cs]
    using bandKey_not_proto [OF c, of d]
    by (auto simp: obj_get_obj_set_same obj_get_obj_set_other)
qed

text \<open>
  With a number other than 0 and NaN in the band entry of a device, the classifier takes the
  number for the code: no band code is equal to it, and all three band keys are set to
  \<^verbatim>\<open>null\<close>.
\<close>

lemma splitDevice_numeric_tag:
  assumes "obj_get row d = Some (Num v)" and "v \<noteq> NaN"
    and "obj_get row (BAND_META_PREFIX @ d) = Some (Num (Fin t))" and "t \<noteq> 0"
    and "c \<in> set bandCodes"
  shows "obj_get (splitDevice conv nms q row out d) (bandKey d c) = Some Null"
proof -
  have code: "bandOf nms q row d v = Num (Fin t)"
    using assms(3,4) by (simp add: bandOf_def truthy_def Let_def)
  have "splitDevice conv nms q row out d
          = setNull (obj_set out (bandKey d (conv (Num (Fin t)))) (Num v)) d bandCodes"
    using assms(1,2) code by (simp add: splitDevice_def templateText_def Let_def)
  with assms(5) show ?thesis by (simp add: obj_get_setNull)
qed

lemma banded_parse: "parseCSV utcDateParse decimalNumber bandedCSV = Inr (bandedRows, bandedNames)"
  by code_simp

text \<open>
  The synthesizer's view of the parsed rows: the key of the band entry is one of its device
  ids, with no coverage, below the threshold 1.
\<close>

lemma banded_ids:
  "deviceIdsAll bandedRows bandedNames = [''dev-1'', ''__band:dev-1''] \<and>
   baseIds bandedRows [''dev-1'', ''__band:dev-1''] = [''dev-1''] \<and>
   coverageCount bandedRows ''dev-1'' = 2 \<and>
   coverageCount bandedRows ''__band:dev-1'' = 0 \<and>
   minCoverage (length bandedRows) = 1"
  by code_simp

lemma banded_synth:
  "augmentRowsForSparseDevices sinFn bandedRows bandedNames =
     [[(''x'', Iso 1755043200000), (''dev-1'', Num (Fin 12)),
       (''__band:dev-1'', Num (synthValue sinFn ''__band:dev-1'' 0 (Fin 12)))],
      [(''x'', Iso 1755046800000), (''dev-1'', Num (Fin 13)),
       (''__band:dev-1'', Num (synthValue sinFn ''__band:dev-1'' 1 (Fin 13)))]]"
proof -
  have ne: "bandedRows \<noteq> []" by (simp add: bandedRows_def)
  have cells: "synthDevice sinFn [''dev-1''] ''__band:dev-1'' bandedRows =
     [[(''x'', Iso 1755043200000), (''dev-1'', Num (Fin 12)),
       (''__band:dev-1'', Num (synthValue sinFn ''__band:dev-1'' 0 (Fin 12)))],
      [(''x'', Iso 1755046800000), (''dev-1'', Num (Fin 13)),
       (''__band:dev-1'', Num (synthValue sinFn ''__band:dev-1'' 1 (Fin 13)))]]"
    by (simp add: synthDevice_def synthCell_def bandedRows_def hasOwn_def isNumeric_def obj_get_def
        obj_set_def baselineAt_def numericValues_def Array_sort_def)
  show ?thesis
    using banded_ids ne cells
    by (simp add: augmentRowsForSparseDevices_def Let_def)
qed

lemma banded_chart_ids:
  "deviceIdSet bandedNames
     [[(''x'', x0), (''dev-1'', v0), (''__band:dev-1'', t0)],
      [(''x'', x1), (''dev-1'', v1), (''__band:dev-1'', t1)]] = [''dev-1'']"
  by code_simp

lemma bandedData_eq:
  "\<exists>q0 q1. 0 < q0 \<and> 0 < q1 \<and>
     synthValue (unitRange f) ''__band:dev-1'' 0 (Fin 12) = Fin q0 \<and>
     synthValue (unitRange f) ''__band:dev-1'' 1 (Fin 13) = Fin q1 \<and>
     bandedData f =
       [[(''x'', Iso 1755043200000), (''dev-1'', Num (Fin 12)), (''__band:dev-1'', Num (Fin q0))],
        [(''x'', Iso 1755046800000), (''dev-1'', Num (Fin 13)), (''__band:dev-1'', Num (Fin q1))]]"
proof -
  obtain q0 where q0: "synthValue (unitRange f) ''__band:dev-1'' 0 (Fin 12) = Fin q0" "0 < q0"
    using synthValue_positive [of 12 f "''__band:dev-1''" 0] by auto
  obtain q1 where q1: "synthValue (unitRange f) ''__band:dev-1'' 1 (Fin 13) = Fin q1" "0 < q1"
    using synthValue_positive [of 13 f "''__band:dev-1''" 1] by auto
  from q0 q1 show ?thesis
    unfolding bandedData_def banded_synth by blast
qed

lemma banded_band_keys:
  assumes "r \<in> set (bandedData f)" and "c \<in> set bandCodes"
  shows "isNumeric (obj_get r ''dev-1'') \<and>
         obj_get (bandSplitRow conv nms q [''dev-1''] r) (bandKey ''dev-1'' c) = Some Null"
proof -
  from bandedData_eq [of f] assms(1)
  obtain ms v t where r: "r = [(''x'', Iso ms), (''dev-1'', Num (Fin v)), (''__band:dev-1'', Num (Fin t))]"
    and t: "0 < t"
    by auto
  have a: "obj_get r ''dev-1'' = Some (Num (Fin v))" by (simp add: r obj_get_def)
  have b: "obj_get r (BAND_META_PREFIX @ ''dev-1'') = Some (Num (Fin t))"
    by (simp add: r obj_get_def BAND_META_PREFIX_def)
  have s: "bandSplitRow conv nms q [''dev-1''] r = splitDevice conv nms q r r ''dev-1''"
    by (simp add: bandSplitRow_def)
  from t have "t \<noteq> 0" by simp
  from splitDevice_numeric_tag [OF a _ b this assms(2)] a show ?thesis
    unfolding s by (simp add: isNumeric_def)
qed

text \<open>
  C7. A captured band tag does not reach the classifier. Two hourly records of \<open>dev-1\<close> with
  the band column \<^verbatim>\<open>5GHz\<close> parse to two rows that hold the values 12 and 13 and the band
  \<open>5\<close>. The synthesizer takes the key \<open>__band:dev-1\<close> for a device without coverage and
  writes a synthesized number over the band, in both rows. The chart's known devices are
  \<open>dev-1\<close> alone, and in both band-split rows the key \<open>dev-1__band_5\<close> holds \<^verbatim>\<open>null\<close>: the
  value does not stand under the captured band. This holds for every sine with values
  between \<open>-1\<close> and \<open>1\<close> and every text of a number.
\<close>

theorem captured_band_tag_overwritten:
  "parseCSV utcDateParse decimalNumber bandedCSV = Inr (bandedRows, bandedNames) \<and>
   map (\<lambda>r. obj_get r ''dev-1'') bandedRows = [Some (Num (Fin 12)), Some (Num (Fin 13))] \<and>
   map (\<lambda>r. obj_get r (BAND_META_PREFIX @ ''dev-1'')) bandedRows
     = [Some (Str (bandText B5)), Some (Str (bandText B5))] \<and>
   map (\<lambda>r. obj_get r ''dev-1'') (bandedData f) = [Some (Num (Fin 12)), Some (Num (Fin 13))] \<and>
   map (\<lambda>r. obj_get r (BAND_META_PREFIX @ ''dev-1'')) (bandedData f)
     = [Some (Num (synthValue (unitRange f) ''__band:dev-1'' 0 (Fin 12))),
        Some (Num (synthValue (unitRange f) ''__band:dev-1'' 1 (Fin 13)))] \<and>
   deviceIdSet bandedNames (bandedData f) = [''dev-1''] \<and>
   map (\<lambda>out. obj_get out (bandKey ''dev-1'' (bandText B5)))
     (slicedDataBanded conv bandedNames (deviceLatencyQuantiles (bandedData f)) [''dev-1'']
        (bandedData f))
     = [Some Null, Some Null]"
proof (intro conjI)
  show "parseCSV utcDateParse decimalNumber bandedCSV = Inr (bandedRows, bandedNames)"
    by (rule banded_parse)
  show "map (\<lambda>r. obj_get r ''dev-1'') bandedRows = [Some (Num (Fin 12)), Some (Num (Fin 13))]"
    by (simp add: bandedRows_def obj_get_def)
  show "map (\<lambda>r. obj_get r (BAND_META_PREFIX @ ''dev-1'')) bandedRows
     = [Some (Str (bandText B5)), Some (Str (bandText B5))]"
    by (simp add: bandedRows_def obj_get_def BAND_META_PREFIX_def)
  show "map (\<lambda>r. obj_get r ''dev-1'') (bandedData f) = [Some (Num (Fin 12)), Some (Num (Fin 13))]"
    by (simp add: bandedData_def banded_synth obj_get_def)
  show "map (\<lambda>r. obj_get r (BAND_META_PREFIX @ ''dev-1'')) (bandedData f)
     = [Some (Num (synthValue (unitRange f) ''__band:dev-1'' 0 (Fin 12))),
        Some (Num (synthValue (unitRange f) ''__band:dev-1'' 1 (Fin 13)))]"
    by (simp add: bandedData_def banded_synth obj_get_def BAND_META_PREFIX_def)
  show "deviceIdSet bandedNames (bandedData f) = [''dev-1'']"
    unfolding bandedData_def banded_synth by (rule banded_chart_ids)
  define Q where "Q = deviceLatencyQuantiles (bandedData f)"
  obtain r0 r1 where d: "bandedData f = [r0, r1]" using bandedData_eq [of f] by blast
  have "obj_get (bandSplitRow conv bandedNames Q [''dev-1''] r) (bandKey ''dev-1'' (bandText B5))
          = Some Null" if "r \<in> set (bandedData f)" for r
    using banded_band_keys [OF that, of "bandText B5"] by (simp add: bandCodes_def)
  then have "map (\<lambda>out. obj_get out (bandKey ''dev-1'' (bandText B5)))
     (slicedDataBanded conv bandedNames Q [''dev-1''] (bandedData f)) = [Some Null, Some Null]"
    by (simp add: slicedDataBanded_def d)
  then show "map (\<lambda>out. obj_get out (bandKey ''dev-1'' (bandText B5)))
     (slicedDataBanded conv bandedNames (deviceLatencyQuantiles (bandedData f)) [''dev-1'']
        (bandedData f))
     = [Some Null, Some Null]"
    by (simp only: Q_def)
qed

text \<open>
  C10. For the same input \<open>dev-1\<close> has a numeric value in both rows of the chart's data, and
  in both band-split rows all three band keys of \<open>dev-1\<close> hold \<^verbatim>\<open>null\<close>: the number that
  the synthesizer wrote over the band entry is taken for the code, the value goes under the
  key built from that number, and the three bands, none of them equal to it, are set to
  \<^verbatim>\<open>null\<close>. This holds for every sine with values between \<open>-1\<close> and \<open>1\<close> and every text
  of a number.
\<close>

theorem band_keys_all_null_after_synthesis:
  "parseCSV utcDateParse decimalNumber bandedCSV = Inr (bandedRows, bandedNames) \<and>
   map (\<lambda>r. isNumeric (obj_get r ''dev-1'')) (bandedData f) = [True, True] \<and>
   map (\<lambda>out. map (\<lambda>c. obj_get out (bandKey ''dev-1'' c)) bandCodes)
     (slicedDataBanded conv bandedNames (deviceLatencyQuantiles (bandedData f)) [''dev-1'']
        (bandedData f))
     = [[Some Null, Some Null, Some Null], [Some Null, Some Null, Some Null]]"
proof (intro conjI)
  show "parseCSV utcDateParse decimalNumber bandedCSV = Inr (bandedRows, bandedNames)"
    by (rule banded_parse)
  show "map (\<lambda>r. isNumeric (obj_get r ''dev-1'')) (bandedData f) = [True, True]"
    by (simp add: bandedData_def banded_synth obj_get_def isNumeric_def)
  define Q where "Q = deviceLatencyQuantiles (bandedData f)"
  obtain r0 r1 where d: "bandedData f = [r0, r1]" using bandedData_eq [of f] by blast
  have "map (\<lambda>c. obj_get (bandSplitRow conv bandedNames Q [''dev-1''] r) (bandKey ''dev-1'' c))
          bandCodes = [Some Null, Some Null, Some Null]" if "r \<in> set (bandedData f)" for r
    using banded_band_keys [OF that] by (simp add: bandCodes_def)
  then have "map (\<lambda>out. map (\<lambda>c. obj_get out (bandKey ''dev-1'' c)) bandCodes)
     (slicedDataBanded conv bandedNames Q [''dev-1''] (bandedData f))
     = [[Some Null, Some Null, Some Null], [Some Null, Some Null, Some Null]]"
    by (simp add: slicedDataBanded_def d)
  then show "map (\<lambda>out. map (\<lambda>c. obj_get out (bandKey ''dev-1'' c)) bandCodes)
     (slicedDataBanded conv bandedNames (deviceLatencyQuantiles (bandedData f)) [''dev-1'']
        (bandedData f))
     = [[Some Null, Some Null, Some Null], [Some Null, Some Null, Some Null]]"
    by (simp only: Q_def)
qed

end
